theory Spec2Isabelle
  imports Main "HOL-Library.Word" "HOL-Library.Monad_Syntax"
begin

section \<open>The BikeRacerGame contract (contracts/RaceToken.sol)\<close>

text \<open>
  The contract is embedded as a state record and one function per external operation.
  A Solidity \<open>address\<close> is a 160-bit word, \<open>address(0)\<close> is \<open>0\<close>. A \<open>uint256\<close> is a
  natural number; Solidity 0.8 reverts with a panic when checked arithmetic leaves the
  range, so every \<open>+\<close>, \<open>-\<close>, \<open>*\<close> and \<open>++\<close> of the source goes through a checked
  operation that returns \<open>None\<close> when the result is out of range. A revert is the
  \<open>Inl\<close> branch of the result: no state is returned, the caller keeps the state it had.
\<close>

type_synonym address = "160 word"

definition MAX_UINT256 :: nat where
  "MAX_UINT256 = 2 ^ 256 - 1"

definition checked_add :: "nat \<Rightarrow> nat \<Rightarrow> nat option" where
  "checked_add a b = (if a + b \<le> MAX_UINT256 then Some (a + b) else None)"

definition checked_sub :: "nat \<Rightarrow> nat \<Rightarrow> nat option" where
  "checked_sub a b = (if b \<le> a then Some (a - b) else None)"

definition checked_mul :: "nat \<Rightarrow> nat \<Rightarrow> nat option" where
  "checked_mul a b = (if a * b \<le> MAX_UINT256 then Some (a * b) else None)"

datatype BikeType = SPORTS | LADY | CHOPPER

datatype GameMode = PRACTICE | RANKED | DAILY_CHALLENGE

record BikeNFT =
  bikeType :: BikeType
  speed :: nat
  acceleration :: nat
  handling :: nat
  mintTime :: nat
  totalRaces :: nat
  totalWins :: nat
  name :: string

record GameSession =
  player :: address
  bikeTokenId :: nat
  score :: nat
  distance :: nat
  vehiclesDodged :: nat
  timestamp :: nat
  completed :: bool
  rewardsClaimed :: nat
  gameMode :: GameMode

record DailyChallenge =
  challengeDate :: nat
  targetScore :: nat
  rewardAmount :: nat
  active :: bool

text \<open>
  The storage of the contract. \<open>nft_owners\<close>, \<open>nft_balances\<close>, \<open>nft_allTokens\<close> and
  \<open>nft_ownedTokens\<close> are the storage of the inherited ERC721 and ERC721Enumerable,
  \<open>paused\<close> and \<open>owner\<close> that of Pausable and Ownable, \<open>raceBalances\<close> the balances of
  the RaceToken ERC20 the contract pays rewards from, and \<open>self\<close> is \<open>address(this)\<close>.
  The \<open>tournaments\<close> mapping and \<open>nextTournamentId\<close> are never written by any function
  and are left out. The operations embedded are the contract's own state-changing
  functions \<open>mintBike\<close>, \<open>startGame\<close>, \<open>completeGame\<close>, \<open>claimRewards\<close>,
  \<open>transferTokensToPlayer\<close>, \<open>updateDailyChallenge\<close>, \<open>pause\<close> and \<open>unpause\<close>. The
  owner's \<open>withdrawFees\<close> (which moves USDC only) and \<open>updateRaceToken\<close>, and the
  transfer and approval functions inherited from ERC721, are not: the reward token stays
  the RaceToken, and a bike stays with the account that minted it.
\<close>

record game =
  tokenIdCounter :: nat
  bikeNFTs :: "nat \<Rightarrow> BikeNFT"
  gameSessions :: "nat \<Rightarrow> GameSession"
  playerSessions :: "address \<Rightarrow> nat list"
  ownedBikes :: "address \<Rightarrow> nat list"
  playerRewards :: "address \<Rightarrow> nat"
  dailyChallenges :: "nat \<Rightarrow> DailyChallenge"
  completedDailyChallenges :: "address \<Rightarrow> nat \<Rightarrow> bool"
  challengeCompleted :: "nat \<Rightarrow> address \<Rightarrow> bool"
  challengeBestScores :: "nat \<Rightarrow> address \<Rightarrow> nat"
  nextSessionId :: nat
  totalPrizePool :: nat
  currentChallengeDate :: nat
  paused :: bool
  owner :: address
  self :: address
  nft_owners :: "nat \<Rightarrow> address"
  nft_balances :: "address \<Rightarrow> nat"
  nft_allTokens :: "nat list"
  nft_ownedTokens :: "address \<Rightarrow> nat list"
  raceBalances :: "address \<Rightarrow> nat"

datatype error =
  Revert string
  | Panic
  | EnforcedPause
  | ExpectedPause
  | OwnableUnauthorizedAccount
  | ERC721NonexistentToken
  | ERC721InvalidReceiver
  | ERC721InvalidSender
  | ERC20InvalidReceiver
  | ERC20InsufficientBalance

datatype event =
  BikeNFTMinted address nat BikeType string
  | GameStarted address nat nat GameMode
  | GameCompleted address nat nat nat GameMode
  | DailyChallengeCreated nat nat nat
  | DailyChallengeCompleted address nat nat nat
  | TokensTransferred address address nat
  | RewardsClaimed address nat

text \<open>
  What a transaction brings with it: \<open>msg.sender\<close>, \<open>block.timestamp\<close>, and the outcome
  of the two calls that leave the repository: \<open>usdc.transferFrom\<close> (\<open>usdc_ok\<close> is false
  when it returns false) and the \<open>onERC721Received\<close> check of \<open>_safeMint\<close>
  (\<open>receiver_ok\<close> is false when the receiver refuses the token).
\<close>

record tx_env =
  msg_sender :: address
  block_timestamp :: nat
  usdc_ok :: bool
  receiver_ok :: bool

definition RANKED_ENTRY_FEE :: nat where
  "RANKED_ENTRY_FEE = 5 * 10 ^ 6"

definition SPORTS_BIKE_PRICE :: nat where
  "SPORTS_BIKE_PRICE = 1 * 10 ^ 6"

definition LADY_BIKE_PRICE :: nat where
  "LADY_BIKE_PRICE = 3 * 10 ^ 6"

definition CHOPPER_BIKE_PRICE :: nat where
  "CHOPPER_BIKE_PRICE = 5 * 10 ^ 6"

fun getBikeBaseStats :: "BikeType \<Rightarrow> nat \<times> nat \<times> nat" where
  "getBikeBaseStats SPORTS = (95, 85, 70)"
| "getBikeBaseStats LADY = (70, 75, 90)"
| "getBikeBaseStats CHOPPER = (80, 60, 85)"

fun getBikeMintPrice :: "BikeType \<Rightarrow> nat" where
  "getBikeMintPrice SPORTS = SPORTS_BIKE_PRICE"
| "getBikeMintPrice LADY = LADY_BIKE_PRICE"
| "getBikeMintPrice CHOPPER = CHOPPER_BIKE_PRICE"

definition getCurrentDay :: "tx_env \<Rightarrow> nat" where
  "getCurrentDay env = block_timestamp env div 86400"

text \<open>
  \<open>_safeMint\<close> of ERC721Enumerable: the receiver must not be the zero address, the token
  must not exist yet, the owner and the enumeration index are recorded, and a receiver
  that refuses the token reverts the mint.
\<close>

definition safeMint :: "tx_env \<Rightarrow> address \<Rightarrow> nat \<Rightarrow> game \<Rightarrow> error + game" where
  "safeMint env to tokenId s =
     (if to = 0 then Inl ERC721InvalidReceiver
      else if nft_owners s tokenId \<noteq> 0 then Inl ERC721InvalidSender
      else if \<not> receiver_ok env then Inl ERC721InvalidReceiver
      else Inr (s\<lparr>nft_owners := (nft_owners s)(tokenId := to),
                  nft_balances := (nft_balances s)(to := nft_balances s to + 1),
                  nft_allTokens := nft_allTokens s @ [tokenId],
                  nft_ownedTokens := (nft_ownedTokens s)(to := nft_ownedTokens s to @ [tokenId])\<rparr>))"

definition ownerOf :: "game \<Rightarrow> nat \<Rightarrow> error + address" where
  "ownerOf s tokenId =
     (if nft_owners s tokenId = 0 then Inl ERC721NonexistentToken
      else Inr (nft_owners s tokenId))"

text \<open>
  \<open>transfer\<close> of the RaceToken (an OpenZeppelin ERC20): it reverts on the zero receiver
  and on an insufficient balance, debits first and credits second, and returns true.
\<close>

definition erc20_transfer ::
  "(address \<Rightarrow> nat) \<Rightarrow> address \<Rightarrow> address \<Rightarrow> nat \<Rightarrow> error + (bool \<times> (address \<Rightarrow> nat))" where
  "erc20_transfer bal from to amount =
     (if to = 0 then Inl ERC20InvalidReceiver
      else if bal from < amount then Inl ERC20InsufficientBalance
      else let bal1 = bal(from := bal from - amount)
           in Inr (True, bal1(to := bal1 to + amount)))"

subsection \<open>mintBike\<close>

definition mintBike :: "tx_env \<Rightarrow> game \<Rightarrow> BikeType \<Rightarrow> string \<Rightarrow> error + (nat \<times> game \<times> event list)" where
  "mintBike env s bt bikeName =
     (if paused s then Inl EnforcedPause
      else if \<not> usdc_ok env then Inl (Revert ''Mint fee transfer failed'')
      else let tokenId = tokenIdCounter s in
        (case checked_add (tokenIdCounter s) 1 of
           None \<Rightarrow> Inl Panic
         | Some counter' \<Rightarrow>
            (case getBikeBaseStats bt of (sp, ac, ha) \<Rightarrow>
               let s1 = s\<lparr>tokenIdCounter := counter',
                          bikeNFTs := (bikeNFTs s)(tokenId :=
                            \<lparr>bikeType = bt, speed = sp, acceleration = ac, handling = ha,
                             mintTime = block_timestamp env, totalRaces = 0, totalWins = 0,
                             name = bikeName\<rparr>),
                          ownedBikes := (ownedBikes s)(msg_sender env :=
                            ownedBikes s (msg_sender env) @ [tokenId])\<rparr>
               in (case safeMint env (msg_sender env) tokenId s1 of
                     Inl e \<Rightarrow> Inl e
                   | Inr s2 \<Rightarrow>
                       Inr (tokenId, s2, [BikeNFTMinted (msg_sender env) tokenId bt bikeName])))))"

subsection \<open>startGame\<close>

definition startGame :: "tx_env \<Rightarrow> game \<Rightarrow> nat \<Rightarrow> GameMode \<Rightarrow> error + (nat \<times> game \<times> event list)" where
  "startGame env s tokenId mode =
     (if paused s then Inl EnforcedPause
      else case ownerOf s tokenId of
        Inl e \<Rightarrow> Inl e
      | Inr holder \<Rightarrow>
         if holder \<noteq> msg_sender env then Inl (Revert ''You don't own this bike'')
         else
          (case
             (if mode = RANKED then
                (if \<not> usdc_ok env then Inl (Revert ''Entry fee transfer failed'')
                 else (case checked_add (totalPrizePool s) ((RANKED_ENTRY_FEE * 80) div 100) of
                         None \<Rightarrow> Inl Panic
                       | Some pool \<Rightarrow> Inr (s\<lparr>totalPrizePool := pool\<rparr>)))
              else if mode = DAILY_CHALLENGE then
                (let today = getCurrentDay env in
                 if \<not> active (dailyChallenges s today)
                   then Inl (Revert ''No active daily challenge'')
                 else if completedDailyChallenges s (msg_sender env) today
                   then Inl (Revert ''Already completed today's challenge'')
                 else Inr s)
              else Inr s)
           of
             Inl e \<Rightarrow> Inl e
           | Inr s1 \<Rightarrow>
              (case (checked_add (nextSessionId s1) 1,
                     checked_add (totalRaces (bikeNFTs s1 tokenId)) 1) of
                 (Some next, Some races) \<Rightarrow>
                   let sessionId = nextSessionId s1;
                       s2 = s1\<lparr>nextSessionId := next,
                               gameSessions := (gameSessions s1)(sessionId :=
                                 \<lparr>player = msg_sender env, bikeTokenId = tokenId, score = 0,
                                  distance = 0, vehiclesDodged = 0,
                                  timestamp = block_timestamp env, completed = False,
                                  rewardsClaimed = 0, gameMode = mode\<rparr>),
                               playerSessions := (playerSessions s1)(msg_sender env :=
                                 playerSessions s1 (msg_sender env) @ [sessionId]),
                               bikeNFTs := (bikeNFTs s1)(tokenId :=
                                 (bikeNFTs s1 tokenId)\<lparr>totalRaces := races\<rparr>)\<rparr>
                   in Inr (sessionId, s2, [GameStarted (msg_sender env) sessionId tokenId mode])
               | _ \<Rightarrow> Inl Panic)))"

subsection \<open>completeGame\<close>

text \<open>The reward terms of \<open>completeGame\<close>, named after its local variables.\<close>

definition baseReward :: nat where
  "baseReward = 10 * 10 ^ 18"

definition bikeBonus :: "BikeNFT \<Rightarrow> nat option" where
  "bikeBonus bike = do {
     t1 \<leftarrow> checked_add (speed bike) (acceleration bike);
     t2 \<leftarrow> checked_add t1 (handling bike);
     t3 \<leftarrow> checked_mul t2 (10 ^ 17);
     Some (t3 div 100)
   }"

definition scoreBonus :: "nat \<Rightarrow> nat option" where
  "scoreBonus sc = checked_mul (sc div 100) (10 ^ 18)"

definition distanceBonus :: "nat \<Rightarrow> nat option" where
  "distanceBonus dist = do {
     t1 \<leftarrow> checked_mul (dist div 1000) 5;
     checked_mul t1 (10 ^ 18)
   }"

definition dodgeBonus :: "nat \<Rightarrow> nat option" where
  "dodgeBonus dodged = do {
     t1 \<leftarrow> checked_mul dodged 2;
     checked_mul t1 (10 ^ 18)
   }"

definition performanceRewards :: "BikeNFT \<Rightarrow> nat \<Rightarrow> nat \<Rightarrow> nat \<Rightarrow> nat option" where
  "performanceRewards bike sc dist dodged = do {
     bb \<leftarrow> bikeBonus bike;
     sb \<leftarrow> scoreBonus sc;
     db \<leftarrow> distanceBonus dist;
     vb \<leftarrow> dodgeBonus dodged;
     t1 \<leftarrow> checked_add baseReward bb;
     t2 \<leftarrow> checked_add t1 sb;
     t3 \<leftarrow> checked_add t2 db;
     checked_add t3 vb
   }"

text \<open>
  The branch on the game mode: the rewards after the branch, the state after it and the
  events it emitted. Only the daily-challenge branch writes storage.
\<close>

definition modeRewards ::
  "tx_env \<Rightarrow> game \<Rightarrow> GameMode \<Rightarrow> nat \<Rightarrow> nat \<Rightarrow> (nat \<times> game \<times> event list) option" where
  "modeRewards env s mode sc totalRewards =
     (if mode = DAILY_CHALLENGE then
        (let today = getCurrentDay env;
             challenge = dailyChallenges s today
         in if sc \<ge> targetScore challenge \<and> \<not> completedDailyChallenges s (msg_sender env) today
            then (case checked_add totalRewards (rewardAmount challenge) of
                    None \<Rightarrow> None
                  | Some granted \<Rightarrow>
                      Some (granted,
                            s\<lparr>completedDailyChallenges := (completedDailyChallenges s)
                                 (msg_sender env := (completedDailyChallenges s (msg_sender env))
                                    (today := True)),
                              challengeCompleted := (challengeCompleted s)
                                 (today := (challengeCompleted s today)(msg_sender env := True)),
                              challengeBestScores := (challengeBestScores s)
                                 (today := (challengeBestScores s today)(msg_sender env := sc))\<rparr>,
                            [DailyChallengeCompleted (msg_sender env) today sc
                               (rewardAmount challenge)]))
            else Some (totalRewards, s, []))
      else if mode = PRACTICE then Some (totalRewards div 2, s, [])
      else Some (totalRewards, s, []))"

definition completeGame ::
  "tx_env \<Rightarrow> game \<Rightarrow> nat \<Rightarrow> nat \<Rightarrow> nat \<Rightarrow> nat \<Rightarrow> error + (game \<times> event list)" where
  "completeGame env s sessionId sc dist dodged =
     (let session = gameSessions s sessionId in
      if player session \<noteq> msg_sender env then Inl (Revert ''Not your session'')
      else if completed session then Inl (Revert ''Session already completed'')
      else
        let session1 = session\<lparr>score := sc, distance := dist, vehiclesDodged := dodged,
                                completed := True\<rparr>;
            s1 = s\<lparr>gameSessions := (gameSessions s)(sessionId := session1)\<rparr>;
            bike = bikeNFTs s1 (bikeTokenId session1)
        in (case performanceRewards bike sc dist dodged of
              None \<Rightarrow> Inl Panic
            | Some rewards0 \<Rightarrow>
               (case modeRewards env s1 (gameMode session1) sc rewards0 of
                  None \<Rightarrow> Inl Panic
                | Some (totalRewards, s2, evs) \<Rightarrow>
                   (case checked_add (playerRewards s2 (msg_sender env)) totalRewards of
                      None \<Rightarrow> Inl Panic
                    | Some credit \<Rightarrow>
                       Inr (s2\<lparr>playerRewards := (playerRewards s2)(msg_sender env := credit),
                               gameSessions := (gameSessions s2)(sessionId :=
                                 (gameSessions s2 sessionId)\<lparr>rewardsClaimed := totalRewards\<rparr>)\<rparr>,
                            evs @ [GameCompleted (msg_sender env) sessionId sc totalRewards
                                     (gameMode session1)])))))"

subsection \<open>claimRewards and transferTokensToPlayer\<close>

definition claimRewards :: "tx_env \<Rightarrow> game \<Rightarrow> error + (game \<times> event list)" where
  "claimRewards env s =
     (let rewards = playerRewards s (msg_sender env) in
      if \<not> rewards > 0 then Inl (Revert ''No rewards to claim'')
      else
        let s1 = s\<lparr>playerRewards := (playerRewards s)(msg_sender env := 0)\<rparr> in
        (case erc20_transfer (raceBalances s1) (self s1) (msg_sender env) rewards of
           Inl e \<Rightarrow> Inl e
         | Inr (ok, bal) \<Rightarrow>
             if \<not> ok then Inl (Revert ''Reward transfer failed'')
             else Inr (s1\<lparr>raceBalances := bal\<rparr>, [RewardsClaimed (msg_sender env) rewards])))"

definition transferTokensToPlayer ::
  "tx_env \<Rightarrow> game \<Rightarrow> address \<Rightarrow> nat \<Rightarrow> error + (game \<times> event list)" where
  "transferTokensToPlayer env s to amount =
     (let senderBalance = playerRewards s (msg_sender env) in
      if \<not> senderBalance \<ge> amount then Inl (Revert ''Insufficient balance'')
      else if \<not> to \<noteq> msg_sender env then Inl (Revert ''Cannot transfer to yourself'')
      else if \<not> to \<noteq> 0 then Inl (Revert ''Invalid recipient'')
      else
        (case checked_sub (playerRewards s (msg_sender env)) amount of
           None \<Rightarrow> Inl Panic
         | Some debited \<Rightarrow>
            let s1 = s\<lparr>playerRewards := (playerRewards s)(msg_sender env := debited)\<rparr> in
            (case checked_add (playerRewards s1 to) amount of
               None \<Rightarrow> Inl Panic
             | Some credited \<Rightarrow>
                 Inr (s1\<lparr>playerRewards := (playerRewards s1)(to := credited)\<rparr>,
                      [TokensTransferred (msg_sender env) to amount]))))"

subsection \<open>The daily challenge, pausing and deployment\<close>

definition createDailyChallenge :: "tx_env \<Rightarrow> game \<Rightarrow> error + (game \<times> event list)" where
  "createDailyChallenge env s =
     (let today = getCurrentDay env in
      case (checked_add 500 (block_timestamp env mod 1000), checked_mul 50 (10 ^ 18)) of
        (Some target, Some reward) \<Rightarrow>
          Inr (s\<lparr>dailyChallenges := (dailyChallenges s)(today :=
                   (dailyChallenges s today)\<lparr>challengeDate := today, targetScore := target,
                      rewardAmount := reward, active := True\<rparr>)\<rparr>,
               [DailyChallengeCreated today target reward])
      | _ \<Rightarrow> Inl Panic)"

definition updateDailyChallenge :: "tx_env \<Rightarrow> game \<Rightarrow> error + (game \<times> event list)" where
  "updateDailyChallenge env s =
     (let today = getCurrentDay env in
      if today > currentChallengeDate s then
        createDailyChallenge env
          (s\<lparr>dailyChallenges := (dailyChallenges s)(currentChallengeDate s :=
                (dailyChallenges s (currentChallengeDate s))\<lparr>active := False\<rparr>),
             currentChallengeDate := today\<rparr>)
      else Inr (s, []))"

definition pause :: "tx_env \<Rightarrow> game \<Rightarrow> error + (game \<times> event list)" where
  "pause env s =
     (if owner s \<noteq> msg_sender env then Inl OwnableUnauthorizedAccount
      else if paused s then Inl EnforcedPause
      else Inr (s\<lparr>paused := True\<rparr>, []))"

definition unpause :: "tx_env \<Rightarrow> game \<Rightarrow> error + (game \<times> event list)" where
  "unpause env s =
     (if owner s \<noteq> msg_sender env then Inl OwnableUnauthorizedAccount
      else if \<not> paused s then Inl ExpectedPause
      else Inr (s\<lparr>paused := False\<rparr>, []))"

definition zeroBike :: BikeNFT where
  "zeroBike = \<lparr>bikeType = SPORTS, speed = 0, acceleration = 0, handling = 0, mintTime = 0,
               totalRaces = 0, totalWins = 0, name = []\<rparr>"

definition zeroSession :: GameSession where
  "zeroSession = \<lparr>player = 0, bikeTokenId = 0, score = 0, distance = 0, vehiclesDodged = 0,
                  timestamp = 0, completed = False, rewardsClaimed = 0, gameMode = PRACTICE\<rparr>"

definition zeroChallenge :: DailyChallenge where
  "zeroChallenge = \<lparr>challengeDate = 0, targetScore = 0, rewardAmount = 0, active = False\<rparr>"

text \<open>
  Storage as the constructor finds it: every slot zero, except the initialisers of the
  declarations (\<open>nextSessionId = 1\<close>) and the owner set by \<open>Ownable(msg.sender)\<close>. The
  address of the contract and the RaceToken balances at deployment are parameters.
\<close>

definition freshStorage :: "tx_env \<Rightarrow> address \<Rightarrow> (address \<Rightarrow> nat) \<Rightarrow> game" where
  "freshStorage env this bal =
     \<lparr>tokenIdCounter = 0, bikeNFTs = (\<lambda>_. zeroBike), gameSessions = (\<lambda>_. zeroSession),
      playerSessions = (\<lambda>_. []), ownedBikes = (\<lambda>_. []), playerRewards = (\<lambda>_. 0),
      dailyChallenges = (\<lambda>_. zeroChallenge), completedDailyChallenges = (\<lambda>_ _. False),
      challengeCompleted = (\<lambda>_ _. False), challengeBestScores = (\<lambda>_ _. 0),
      nextSessionId = 1, totalPrizePool = 0, currentChallengeDate = 0, paused = False,
      owner = msg_sender env, self = this, nft_owners = (\<lambda>_. 0), nft_balances = (\<lambda>_. 0),
      nft_allTokens = [], nft_ownedTokens = (\<lambda>_. []), raceBalances = bal\<rparr>"

definition constructor :: "tx_env \<Rightarrow> address \<Rightarrow> (address \<Rightarrow> nat) \<Rightarrow> error + (game \<times> event list)" where
  "constructor env this bal =
     createDailyChallenge env
       ((freshStorage env this bal)\<lparr>currentChallengeDate := getCurrentDay env\<rparr>)"

subsection \<open>Transactions\<close>

datatype call =
  MintBike BikeType string
  | StartGame nat GameMode
  | CompleteGame nat nat nat nat
  | ClaimRewards
  | TransferTokensToPlayer address nat
  | UpdateDailyChallenge
  | Pause
  | Unpause

fun dropResult :: "error + (nat \<times> game \<times> event list) \<Rightarrow> error + (game \<times> event list)" where
  "dropResult (Inl e) = Inl e"
| "dropResult (Inr (r, s, evs)) = Inr (s, evs)"

fun dispatch :: "tx_env \<Rightarrow> game \<Rightarrow> call \<Rightarrow> error + (game \<times> event list)" where
  "dispatch env s (MintBike bt bikeName) = dropResult (mintBike env s bt bikeName)"
| "dispatch env s (StartGame tokenId mode) = dropResult (startGame env s tokenId mode)"
| "dispatch env s (CompleteGame sessionId sc dist dodged) =
     completeGame env s sessionId sc dist dodged"
| "dispatch env s ClaimRewards = claimRewards env s"
| "dispatch env s (TransferTokensToPlayer to amount) = transferTokensToPlayer env s to amount"
| "dispatch env s UpdateDailyChallenge = updateDailyChallenge env s"
| "dispatch env s Pause = pause env s"
| "dispatch env s Unpause = unpause env s"

text \<open>
  A transaction either commits the state its call returned, with the events it emitted,
  or reverts: the state stays what it was and nothing is logged.
\<close>

definition exec :: "game \<Rightarrow> tx_env \<times> call \<Rightarrow> game \<times> event list" where
  "exec s tx =
     (case dispatch (fst tx) s (snd tx) of
        Inl e \<Rightarrow> (s, [])
      | Inr (s', evs) \<Rightarrow> (s', evs))"

fun run :: "game \<Rightarrow> (tx_env \<times> call) list \<Rightarrow> game \<times> event list" where
  "run s [] = (s, [])"
| "run s (tx # txs) =
     (case exec s tx of (s1, evs1) \<Rightarrow>
        (case run s1 txs of (s2, evs2) \<Rightarrow> (s2, evs1 @ evs2)))"

subsection \<open>Reading the log and the ledger\<close>

text \<open>
  \<open>GameCompleted\<close> carries the rewards a completion computed, \<open>RewardsClaimed\<close> the amount
  a claim paid out, and \<open>DailyChallengeCompleted\<close> is emitted in the branch that adds the
  daily bonus. The ledger total is the sum of \<open>playerRewards\<close> over all addresses.
\<close>

fun computedOf :: "event \<Rightarrow> nat" where
  "computedOf (GameCompleted p sid sc rewards mode) = rewards"
| "computedOf _ = 0"

fun claimedOf :: "event \<Rightarrow> nat" where
  "claimedOf (RewardsClaimed p amount) = amount"
| "claimedOf _ = 0"

fun isDailyGrant :: "address \<Rightarrow> nat \<Rightarrow> event \<Rightarrow> bool" where
  "isDailyGrant p d (DailyChallengeCompleted p' d' sc reward) = (p = p' \<and> d = d')"
| "isDailyGrant p d _ = False"

definition ledgerTotal :: "game \<Rightarrow> nat" where
  "ledgerTotal s = sum (playerRewards s) UNIV"

definition totalComputed :: "event list \<Rightarrow> nat" where
  "totalComputed evs = sum_list (map computedOf evs)"

definition totalClaimed :: "event list \<Rightarrow> nat" where
  "totalClaimed evs = sum_list (map claimedOf evs)"

definition dailyGrants :: "address \<Rightarrow> nat \<Rightarrow> event list \<Rightarrow> nat" where
  "dailyGrants p d evs = length (filter (isDailyGrant p d) evs)"

text \<open>
  What a call added to the ledger entry of \<open>a\<close>: \<open>None\<close> when the call reverted, and
  also when it lowered the entry, so that \<open>Some n\<close> always means the entry grew by \<open>n\<close>.
\<close>

definition credited :: "error + (game \<times> event list) \<Rightarrow> game \<Rightarrow> address \<Rightarrow> nat option" where
  "credited r s a =
     (case r of
        Inl e \<Rightarrow> None
      | Inr (s', evs) \<Rightarrow>
          if playerRewards s a \<le> playerRewards s' a
          then Some (playerRewards s' a - playerRewards s a) else None)"

text \<open>The condition under which \<open>completeGame\<close> grants the daily bonus.\<close>

definition dailyQualifies :: "tx_env \<Rightarrow> game \<Rightarrow> nat \<Rightarrow> bool" where
  "dailyQualifies env s sc =
     (sc \<ge> targetScore (dailyChallenges s (getCurrentDay env))
      \<and> \<not> completedDailyChallenges s (msg_sender env) (getCurrentDay env))"

definition reverted :: "error + 'a \<Rightarrow> bool" where
  "reverted r = (case r of Inl e \<Rightarrow> True | Inr x \<Rightarrow> False)"

subsection \<open>A deployment and its players\<close>

definition deployer :: address where
  "deployer = 0xD0"

definition alice :: address where
  "alice = 0xA1"

definition bob :: address where
  "bob = 0xB0"

definition gameAddress :: address where
  "gameAddress = 0x6A"

definition at_time :: "address \<Rightarrow> nat \<Rightarrow> tx_env" where
  "at_time a t = \<lparr>msg_sender = a, block_timestamp = t, usdc_ok = True, receiver_ok = True\<rparr>"

text \<open>
  The contract deployed at time 1000 and funded with 1000 RACE; then Alice mints a
  Sports bike (token 0) and starts a Practice session (session 1) on it.
\<close>

definition deployed :: game where
  "deployed =
     (case constructor (at_time deployer 1000) gameAddress
             ((\<lambda>_. 0)(gameAddress := 1000 * 10 ^ 18)) of
        Inl e \<Rightarrow> freshStorage (at_time deployer 1000) gameAddress (\<lambda>_. 0)
      | Inr (s, evs) \<Rightarrow> s)"

definition practiceStarted :: game where
  "practiceStarted =
     fst (run deployed [(at_time alice 2000, MintBike SPORTS ''Lightning Sports''),
                        (at_time alice 3000, StartGame 0 PRACTICE)])"

definition practiceCompleted :: game where
  "practiceCompleted =
     fst (exec practiceStarted (at_time alice 4000, CompleteGame 1 1000 2000 10))"

text \<open>The same state with a contract that holds no RACE tokens.\<close>

definition unfunded :: game where
  "unfunded = practiceCompleted\<lparr>raceBalances := (\<lambda>_. 0)\<rparr>"

definition afterClaim :: game where
  "afterClaim = fst (run practiceCompleted [(at_time alice 5000, ClaimRewards)])"

text \<open>A run that mints, plays, moves credits to Bob and claims.\<close>

definition ledgerRun :: "(tx_env \<times> call) list" where
  "ledgerRun =
     [(at_time alice 2000, MintBike SPORTS ''Lightning Sports''),
      (at_time alice 3000, StartGame 0 PRACTICE),
      (at_time alice 4000, CompleteGame 1 1000 2000 10),
      (at_time alice 4100, TransferTokensToPlayer bob (5 * 10 ^ 18)),
      (at_time alice 5000, ClaimRewards)]"

subsection \<open>Daily-challenge scenarios\<close>

text \<open>
  Alice starts two daily-challenge sessions (1 and 2) on day 0 before completing either,
  then completes both with scores above the day's target of 500.
\<close>

definition twoDailyStarted :: game where
  "twoDailyStarted =
     fst (run deployed [(at_time alice 2000, MintBike SPORTS ''Lightning Sports''),
                        (at_time alice 3000, StartGame 0 DAILY_CHALLENGE),
                        (at_time alice 3100, StartGame 0 DAILY_CHALLENGE)])"

definition dailyRun :: "(tx_env \<times> call) list" where
  "dailyRun = [(at_time alice 4000, CompleteGame 1 1000 0 0),
               (at_time alice 5000, CompleteGame 2 1200 0 0)]"

definition firstDailyCompleted :: game where
  "firstDailyCompleted = fst (exec twoDailyStarted (at_time alice 4000, CompleteGame 1 1000 0 0))"

text \<open>
  Alice starts a daily-challenge session on day 0; on day 1 Bob rolls the challenge
  over, which sets day 1's target to 677.
\<close>

definition dailyStarted :: game where
  "dailyStarted =
     fst (run deployed [(at_time alice 2000, MintBike SPORTS ''Lightning Sports''),
                        (at_time alice 3000, StartGame 0 DAILY_CHALLENGE),
                        (at_time bob 87177, UpdateDailyChallenge)])"

section \<open>The client (services/CircleService.ts)\<close>

text \<open>
  An asynchronous method of the service is embedded as a function of the answers it gets
  from outside (the reads of the chain, the relay), and returns its result together with
  the effects it performed, in order. A read that throws is \<open>None\<close>. JavaScript numbers
  are taken as naturals: the token and session identifiers of the contract stay far below
  2^53.
\<close>

record chain_view =
  read_balanceOf :: "address \<Rightarrow> nat option"
  read_tokenOfOwnerByIndex :: "address \<Rightarrow> nat \<Rightarrow> nat option"
  read_totalSupply :: "nat option"
  read_ownerOf :: "nat \<Rightarrow> address option"
  read_getBikeNFT :: "nat \<Rightarrow> BikeNFT option"
  read_nextSessionId :: "nat option"

text \<open>
  The reads as the contract answers them in state \<open>s\<close>: \<open>balanceOf\<close> reverts on the zero
  address, \<open>tokenOfOwnerByIndex\<close> on an index out of bounds, \<open>ownerOf\<close> on a token that
  does not exist.
\<close>

definition chainOf :: "game \<Rightarrow> chain_view" where
  "chainOf s =
     \<lparr>read_balanceOf = (\<lambda>a. if a = 0 then None else Some (nft_balances s a)),
      read_tokenOfOwnerByIndex =
        (\<lambda>a i. if i < length (nft_ownedTokens s a) then Some (nft_ownedTokens s a ! i) else None),
      read_totalSupply = Some (length (nft_allTokens s)),
      read_ownerOf = (\<lambda>tokenId. case ownerOf s tokenId of Inl e \<Rightarrow> None | Inr a \<Rightarrow> Some a),
      read_getBikeNFT = (\<lambda>tokenId. Some (bikeNFTs s tokenId)),
      read_nextSessionId = Some (nextSessionId s)\<rparr>"

text \<open>The same chain behind a node whose enumerable index does not answer.\<close>

definition withoutEnumeration :: "chain_view \<Rightarrow> chain_view" where
  "withoutEnumeration v = v\<lparr>read_tokenOfOwnerByIndex := (\<lambda>a i. None)\<rparr>"

subsection \<open>getPlayerBikes\<close>

text \<open>
  The loop over the enumerable index, \<open>for (let i = 0; i < numBikes; i++)\<close>: it pushes
  onto \<open>tokenIds\<close> and stops at the first read that throws; the flag tells whether it ran
  to the end.
\<close>

fun enumerateLoop :: "chain_view \<Rightarrow> address \<Rightarrow> nat list \<Rightarrow> nat list \<Rightarrow> nat list \<times> bool" where
  "enumerateLoop v me [] tokenIds = (tokenIds, True)"
| "enumerateLoop v me (i # rest) tokenIds =
     (case read_tokenOfOwnerByIndex v me i of
        None \<Rightarrow> (tokenIds, False)
      | Some t \<Rightarrow> enumerateLoop v me rest (tokenIds @ [t]))"

text \<open>
  The fallback loop, \<open>for (let tokenId = 1; tokenId <= maxTokens; tokenId++)\<close>: a read of
  \<open>ownerOf\<close> that throws is skipped.
\<close>

fun scanLoop :: "chain_view \<Rightarrow> address \<Rightarrow> nat list \<Rightarrow> nat list \<Rightarrow> nat list" where
  "scanLoop v me [] tokenIds = tokenIds"
| "scanLoop v me (t # rest) tokenIds =
     (case read_ownerOf v t of
        None \<Rightarrow> scanLoop v me rest tokenIds
      | Some holder \<Rightarrow>
          if holder = me then scanLoop v me rest (tokenIds @ [t])
          else scanLoop v me rest tokenIds)"

text \<open>
  \<open>account\<close> is the address of the smart account, \<open>None\<close> before the wallet is connected.
  The fallback pushes onto the \<open>tokenIds\<close> the interrupted enumeration left behind.
\<close>

definition getPlayerBikes :: "address option \<Rightarrow> chain_view \<Rightarrow> nat list" where
  "getPlayerBikes account v =
     (case account of
        None \<Rightarrow> []
      | Some me \<Rightarrow>
         (case read_balanceOf v me of
            None \<Rightarrow> []
          | Some numBikes \<Rightarrow>
             if numBikes = 0 then []
             else
              (case enumerateLoop v me [0..<numBikes] [] of
                 (tokenIds, True) \<Rightarrow> tokenIds
               | (tokenIds, False) \<Rightarrow>
                  (case read_totalSupply v of
                     None \<Rightarrow> []
                   | Some maxTokens \<Rightarrow> scanLoop v me [1..<Suc maxTokens] tokenIds))))"

text \<open>The deployment after its first mint.\<close>

definition firstMinted :: game where
  "firstMinted = fst (exec deployed (at_time alice 2000, MintBike SPORTS ''Lightning Sports''))"

subsection \<open>getOwnedBikeTypesReliable\<close>














subsection \<open>The relay and the results of the service\<close>

text \<open>
  A user operation is a list of calls the relay executes as one transaction. What the
  service passed to \<open>sendUserOperation\<close> is recorded as a list of such batches, in order.
  Strings are byte strings; the texts searched for below are ASCII, where the bytes and
  JavaScript's code units agree.
\<close>

datatype relay_call = Approve address nat | GameCall call

type_synonym batch = "relay_call list"

record TransactionResult =
  success :: bool
  transactionHash :: "string option"
  error :: "string option"
  sessionId :: "nat option"
  tokenId :: "nat option"

definition failed :: "string \<Rightarrow> TransactionResult" where
  "failed msg = \<lparr>success = False, transactionHash = None, error = Some msg, sessionId = None,
                 tokenId = None\<rparr>"

fun startsWith :: "string \<Rightarrow> string \<Rightarrow> bool" where
  "startsWith s [] = True"
| "startsWith [] (c # cs) = False"
| "startsWith (d # ds) (c # cs) = (d = c \<and> startsWith ds cs)"

text \<open>\<open>String.prototype.includes\<close>.\<close>

fun str_includes :: "string \<Rightarrow> string \<Rightarrow> bool" where
  "str_includes [] needle = (needle = [])"
| "str_includes (c # cs) needle = (startsWith (c # cs) needle \<or> str_includes cs needle)"

definition gameContract :: address where
  "gameContract = 0xd9aECa6C00F52E17F9296a8c490D7F0FF80F6BE8"

fun clientBikeMintPrice :: "BikeType \<Rightarrow> nat" where
  "clientBikeMintPrice SPORTS = 1000000"
| "clientBikeMintPrice LADY = 3000000"
| "clientBikeMintPrice CHOPPER = 5000000"

subsection \<open>mintBike of the service and of the game context\<close>

definition receiptTimeoutText :: string where
  "receiptTimeoutText = ''Transaction was submitted but receipt confirmation timed out. The mint might still be processing. Please check your wallet or try refreshing the page in a few moments.''"

definition paymasterText :: string where
  "paymasterText =
     [CHR 0xE2, CHR 0x9A, CHR 0xA0, CHR 0xEF, CHR 0xB8, CHR 0x8F]
     @ '' Wallet not registered with Circle's paymaster system.'' @ [CHR 0x0A, CHR 0x0A]
     @ ''For gas-free transactions, this wallet needs one-time setup:'' @ [CHR 0x0A, CHR 0x0A]
     @ ''1. Add your wallet private key to .env as OWNER_PRIVATE_KEY'' @ [CHR 0x0A]
     @ ''2. Run: node index.js'' @ [CHR 0x0A]
     @ ''3. Try minting again'' @ [CHR 0x0A, CHR 0x0A]
     @ ''Alternatively, you can mint by paying gas fees directly from your wallet (we can add this option if needed).''"

text \<open>
  What a mint meets: whether the account and the bundler are initialised, the USDC balance
  read, the answer of \<open>sendUserOperation\<close> (a hash, or on the left the message of the
  error thrown), the outcome of the race between the receipt and the 60 second timer (on
  the left the message of the rejection, \<open>Receipt timeout after 60 seconds\<close> for the
  timer), and the rendering of an amount by \<open>toFixed(2)\<close>.
\<close>

record mint_env =
  m_ready :: bool
  m_usdcBalance :: "string + nat"
  m_send :: "string + string"
  m_receipt :: "string + string option"
  m_format :: "nat \<Rightarrow> string"

text \<open>The outer \<open>catch\<close> of the service's \<open>mintBike\<close>.\<close>

definition mintCatch :: "string \<Rightarrow> TransactionResult" where
  "mintCatch msg =
     (if str_includes msg ''AA33'' \<or> str_includes msg ''transfer amount exceeds allowance''
      then failed paymasterText
      else failed msg)"

definition service_mintBike :: "mint_env \<Rightarrow> BikeType \<Rightarrow> string \<Rightarrow> TransactionResult \<times> batch list" where
  "service_mintBike env bt bikeName =
     (if \<not> m_ready env
        then (mintCatch ''Circle Smart Account or bundler client not initialized'', [])
      else case m_usdcBalance env of
        Inl msg \<Rightarrow> (mintCatch msg, [])
      | Inr balance \<Rightarrow>
         let mintPrice = clientBikeMintPrice bt in
         if balance < mintPrice
           then (mintCatch (''Insufficient USDC balance. You have '' @ m_format env balance
                   @ '' USDC, but need '' @ m_format env mintPrice
                   @ '' USDC. Please fund your account at https://faucet.circle.com''), [])
         else
          let calls = [Approve gameContract mintPrice, GameCall (MintBike bt bikeName)] in
          (case m_send env of
             Inl msg \<Rightarrow> (mintCatch msg, [calls])
           | Inr hash \<Rightarrow>
              (case m_receipt env of
                 Inr receiptHash \<Rightarrow>
                   (\<lparr>success = True,
                     transactionHash =
                       Some (case receiptHash of
                               None \<Rightarrow> hash
                             | Some h \<Rightarrow> if h = [] then hash else h),
                     error = None, sessionId = None, tokenId = Some 0\<rparr>, [calls])
               | Inl receiptError \<Rightarrow>
                   (\<lparr>success = False, transactionHash = Some hash,
                     error = Some receiptTimeoutText, sessionId = None, tokenId = None\<rparr>,
                    [calls]))))"

text \<open>
  \<open>mintBike\<close> of the game context: the state setters it calls and the timers it starts,
  in order. \<open>VerifyOwnership\<close> is the 2 second check after a success,
  \<open>ReloadBikesAndBalance\<close> the re-read of the chain after a timeout.
\<close>

datatype timer_task = VerifyOwnership BikeType | ReloadBikesAndBalance

datatype ui_effect =
  SetError "string option"
  | SetLoading bool
  | AddMintedBikeType BikeType
  | SetTimeout timer_task nat

definition context_mintBike ::
  "bool \<Rightarrow> mint_env \<Rightarrow> BikeType \<Rightarrow> string \<Rightarrow> ui_effect list \<times> batch list" where
  "context_mintBike connected env bt bikeName =
     (if \<not> connected then ([SetError (Some ''Wallet not connected'')], [])
      else
        case service_mintBike env bt bikeName of (result, batches) \<Rightarrow>
          ([SetLoading True, SetError None]
           @ (if success result
              then [AddMintedBikeType bt, SetTimeout (VerifyOwnership bt) 2000]
              else (if (case error result of None \<Rightarrow> False | Some e \<Rightarrow> str_includes e ''timeout'')
                    then [SetTimeout ReloadBikesAndBalance 10000] else [])
                   @ [SetError (Some (case error result of
                                        None \<Rightarrow> ''Failed to mint bike''
                                      | Some e \<Rightarrow> if e = [] then ''Failed to mint bike'' else e))])
           @ [SetLoading False],
           batches))"

definition timedOutMint :: "BikeType \<Rightarrow> nat \<Rightarrow> string \<Rightarrow> (nat \<Rightarrow> string) \<Rightarrow> mint_env" where
  "timedOutMint bt surplus hash fmt =
     \<lparr>m_ready = True, m_usdcBalance = Inr (clientBikeMintPrice bt + surplus), m_send = Inr hash,
      m_receipt = Inl ''Receipt timeout after 60 seconds'', m_format = fmt\<rparr>"

subsection \<open>The completion flow of the two services\<close>










section \<open>Properties of the contract\<close>

lemmas scenario_defs =
  practiceCompleted_def practiceStarted_def deployed_def constructor_def
  createDailyChallenge_def updateDailyChallenge_def freshStorage_def at_time_def
  getCurrentDay_def checked_add_def checked_mul_def checked_sub_def MAX_UINT256_def
  exec_def mintBike_def safeMint_def startGame_def ownerOf_def
  alice_def bob_def deployer_def gameAddress_def
  completeGame_def credited_def reverted_def modeRewards_def Let_def
  performanceRewards_def bikeBonus_def scoreBonus_def distanceBonus_def dodgeBonus_def
  baseReward_def claimRewards_def erc20_transfer_def transferTokensToPlayer_def
  RANKED_ENTRY_FEE_def

subsection \<open>The rewards of a Practice session\<close>

lemma bikeBonus_le: "bikeBonus bike = Some bb \<Longrightarrow> bb \<le> MAX_UINT256 div 100"
  by (auto simp: bikeBonus_def checked_add_def checked_mul_def Let_def
      split: if_splits bind_splits intro: div_le_mono)

lemma performanceRewards_scenario:
  assumes "bikeBonus bike = Some bb"
  shows "performanceRewards bike 1000 2000 10 = Some (50 * 10 ^ 18 + bb)"
proof -
  have "bb \<le> MAX_UINT256 div 100"
    using assms by (rule bikeBonus_le)
  then have "bb \<le> 3 * 10 ^ 75"
    by (simp add: MAX_UINT256_def)
  then show ?thesis
    using assms
    by (simp add: performanceRewards_def scoreBonus_def distanceBonus_def dodgeBonus_def
        baseReward_def checked_add_def checked_mul_def MAX_UINT256_def)
qed

text \<open>
  C1, as stated, fails: completing Alice's Practice session with score 1000, distance
  2000 and 10 dodges on her Sports bike (95, 85, 70) credits 25125000000000000000 base
  units (25.125 RACE), not 26 * 10^18.
\<close>

theorem practice_reward_not_26:
  "credited (completeGame (at_time alice 4000) practiceStarted 1 1000 2000 10)
       practiceStarted alice = Some 25125000000000000000
   \<and> credited (completeGame (at_time alice 4000) practiceStarted 1 1000 2000 10)
       practiceStarted alice \<noteq> Some (26 * 10 ^ 18)"
  by (simp add: scenario_defs)

text \<open>
  C1, amended: completing a Practice session with score 1000, distance 2000 and 10
  dodges credits the caller with \<open>(50 * 10^18 + bb) div 2\<close> base units, where \<open>bb\<close> is the
  bike bonus the contract computes for the session's bike: the base (10), score (10),
  distance (10) and dodge (20) rewards and the bike bonus are summed first, and the sum
  is halved afterwards by integer division at the scale of 10^-18 RACE, so the result is
  not rounded to whole reward units.
\<close>

theorem practice_reward:
  assumes "player (gameSessions s sid) = msg_sender env"
    and "\<not> completed (gameSessions s sid)"
    and "gameMode (gameSessions s sid) = PRACTICE"
    and "bikeBonus (bikeNFTs s (bikeTokenId (gameSessions s sid))) = Some bb"
    and "playerRewards s (msg_sender env) + (50 * 10 ^ 18 + bb) div 2 \<le> MAX_UINT256"
  shows "credited (completeGame env s sid 1000 2000 10) s (msg_sender env)
           = Some ((50 * 10 ^ 18 + bb) div 2)"
  using assms performanceRewards_scenario[OF assms(4)]
  by (simp add: completeGame_def credited_def modeRewards_def Let_def checked_add_def)

theorem practice_reward_witness:
  "player (gameSessions practiceStarted 1) = msg_sender (at_time alice 4000)
   \<and> \<not> completed (gameSessions practiceStarted 1)
   \<and> gameMode (gameSessions practiceStarted 1) = PRACTICE
   \<and> bikeBonus (bikeNFTs practiceStarted (bikeTokenId (gameSessions practiceStarted 1)))
       = Some 250000000000000000
   \<and> playerRewards practiceStarted (msg_sender (at_time alice 4000))
       + (50 * 10 ^ 18 + 250000000000000000) div 2 \<le> MAX_UINT256
   \<and> credited (completeGame (at_time alice 4000) practiceStarted 1 1000 2000 10)
       practiceStarted (msg_sender (at_time alice 4000))
       = Some ((50 * 10 ^ 18 + 250000000000000000) div 2)"
proof -
  have h1: "player (gameSessions practiceStarted 1) = msg_sender (at_time alice 4000)"
    by (simp add: scenario_defs)
  have h2: "\<not> completed (gameSessions practiceStarted 1)"
    by (simp add: scenario_defs)
  have h3: "gameMode (gameSessions practiceStarted 1) = PRACTICE"
    by (simp add: scenario_defs)
  have h4: "bikeBonus (bikeNFTs practiceStarted (bikeTokenId (gameSessions practiceStarted 1)))
              = Some 250000000000000000"
    by (simp add: scenario_defs)
  have h5: "playerRewards practiceStarted (msg_sender (at_time alice 4000))
              + (50 * 10 ^ 18 + 250000000000000000) div 2 \<le> MAX_UINT256"
    by (simp add: scenario_defs)
  show ?thesis
    using h1 h2 h3 h4 h5 practice_reward[OF h1 h2 h3 h4 h5] by simp
qed

subsection \<open>What each operation changes\<close>

lemma mintBike_frame:
  assumes "mintBike env s bt nm = Inr (r, s', evs)"
  shows "gameSessions s' = gameSessions s" "nextSessionId s' = nextSessionId s"
    "playerRewards s' = playerRewards s"
    "completedDailyChallenges s' = completedDailyChallenges s"
    "evs = [BikeNFTMinted (msg_sender env) r bt nm]" "r = tokenIdCounter s"
  using assms
  by (auto simp: mintBike_def safeMint_def Let_def split: if_splits option.splits sum.splits prod.splits)

lemma startGame_frame:
  assumes "startGame env s tok mode = Inr (r, s', evs)"
  shows "r = nextSessionId s" "nextSessionId s' = nextSessionId s + 1"
    "\<And>sid. sid \<noteq> nextSessionId s \<Longrightarrow> gameSessions s' sid = gameSessions s sid"
    "playerRewards s' = playerRewards s"
    "completedDailyChallenges s' = completedDailyChallenges s"
    "evs = [GameStarted (msg_sender env) r tok mode]"
  using assms
  by (auto simp: startGame_def Let_def checked_add_def
      split: if_splits option.splits sum.splits prod.splits)

lemma modeRewards_cases:
  assumes "modeRewards env s mode sc r0 = Some (r, s', evs)"
  shows "(evs = [] \<and> s' = s \<and> (r = r0 \<or> r = r0 div 2))
       \<or> (mode = DAILY_CHALLENGE
          \<and> sc \<ge> targetScore (dailyChallenges s (getCurrentDay env))
          \<and> \<not> completedDailyChallenges s (msg_sender env) (getCurrentDay env)
          \<and> r = r0 + rewardAmount (dailyChallenges s (getCurrentDay env))
          \<and> evs = [DailyChallengeCompleted (msg_sender env) (getCurrentDay env) sc
                    (rewardAmount (dailyChallenges s (getCurrentDay env)))]
          \<and> s' = s\<lparr>completedDailyChallenges := (completedDailyChallenges s)
                       (msg_sender env := (completedDailyChallenges s (msg_sender env))
                          (getCurrentDay env := True)),
                    challengeCompleted := (challengeCompleted s)
                       (getCurrentDay env := (challengeCompleted s (getCurrentDay env))
                          (msg_sender env := True)),
                    challengeBestScores := (challengeBestScores s)
                       (getCurrentDay env := (challengeBestScores s (getCurrentDay env))
                          (msg_sender env := sc))\<rparr>)"
  using assms
  by (auto simp: modeRewards_def Let_def checked_add_def split: if_splits option.splits)

lemma completeGame_frame:
  assumes "completeGame env s sid sc dist dodged = Inr (s', evs)"
  shows "nextSessionId s' = nextSessionId s"
    "\<And>k. completed (gameSessions s k) \<Longrightarrow> completed (gameSessions s' k)"
    "completed (gameSessions s' sid)"
    "\<exists>r devs. evs = devs @ [GameCompleted (msg_sender env) sid sc r (gameMode (gameSessions s sid))]
        \<and> playerRewards s' = (playerRewards s)(msg_sender env := playerRewards s (msg_sender env) + r)
        \<and> (devs = [] \<or> (\<exists>x. devs = [DailyChallengeCompleted (msg_sender env) (getCurrentDay env) sc x]))"
    "\<And>p d. completedDailyChallenges s p d \<Longrightarrow> completedDailyChallenges s' p d"
  using assms
  by (auto simp: completeGame_def Let_def checked_add_def
      split: if_splits option.splits sum.splits prod.splits dest!: modeRewards_cases)

lemma claimRewards_frame:
  assumes "claimRewards env s = Inr (s', evs)"
  shows "nextSessionId s' = nextSessionId s" "gameSessions s' = gameSessions s"
    "completedDailyChallenges s' = completedDailyChallenges s"
    "playerRewards s' = (playerRewards s)(msg_sender env := 0)"
    "evs = [RewardsClaimed (msg_sender env) (playerRewards s (msg_sender env))]"
  using assms
  by (auto simp: claimRewards_def Let_def erc20_transfer_def split: if_splits sum.splits prod.splits)

lemma transferTokensToPlayer_frame:
  assumes "transferTokensToPlayer env s to amount = Inr (s', evs)"
  shows "nextSessionId s' = nextSessionId s" "gameSessions s' = gameSessions s"
    "completedDailyChallenges s' = completedDailyChallenges s"
    "amount \<le> playerRewards s (msg_sender env)" "to \<noteq> msg_sender env" "to \<noteq> 0"
    "playerRewards s' = (playerRewards s)
       (msg_sender env := playerRewards s (msg_sender env) - amount,
        to := playerRewards s to + amount)"
    "evs = [TokensTransferred (msg_sender env) to amount]"
  using assms
  by (auto simp: transferTokensToPlayer_def Let_def checked_add_def checked_sub_def
      split: if_splits option.splits)

lemma updateDailyChallenge_frame:
  assumes "updateDailyChallenge env s = Inr (s', evs)"
  shows "nextSessionId s' = nextSessionId s" "gameSessions s' = gameSessions s"
    "completedDailyChallenges s' = completedDailyChallenges s"
    "playerRewards s' = playerRewards s"
    "evs = [] \<or> (\<exists>d t r. evs = [DailyChallengeCreated d t r])"
  using assms
  by (auto simp: updateDailyChallenge_def createDailyChallenge_def Let_def
      split: if_splits option.splits prod.splits)

lemma pause_frame:
  assumes "pause env s = Inr (s', evs) \<or> unpause env s = Inr (s', evs)"
  shows "nextSessionId s' = nextSessionId s" "gameSessions s' = gameSessions s"
    "completedDailyChallenges s' = completedDailyChallenges s"
    "playerRewards s' = playerRewards s" "evs = []"
  using assms
  by (auto simp: pause_def unpause_def split: if_splits)

subsection \<open>The ledger total\<close>

lemma completeGame_daily:
  assumes "completeGame env s sid sc dist dodged = Inr (s', evs)"
  shows "(dailyGrants p d evs = 0 \<and> completedDailyChallenges s' = completedDailyChallenges s)
       \<or> (dailyGrants p d evs = (if p = msg_sender env \<and> d = getCurrentDay env then 1 else 0)
          \<and> \<not> completedDailyChallenges s (msg_sender env) (getCurrentDay env)
          \<and> completedDailyChallenges s' = (completedDailyChallenges s)
               (msg_sender env := (completedDailyChallenges s (msg_sender env))
                  (getCurrentDay env := True)))"
  using assms
  by (auto simp: completeGame_def Let_def checked_add_def dailyGrants_def
      split: if_splits option.splits sum.splits prod.splits dest!: modeRewards_cases)

lemma sum_ledger_upd:
  fixes f :: "address \<Rightarrow> nat"
  shows "sum (f(a := v)) UNIV + f a = sum f UNIV + v"
proof -
  have "sum (f(a := v)) UNIV = (f(a := v)) a + sum (f(a := v)) (UNIV - {a})"
    by (rule sum.remove) simp_all
  moreover have "sum f UNIV = f a + sum f (UNIV - {a})"
    by (rule sum.remove) simp_all
  moreover have "sum (f(a := v)) (UNIV - {a}) = sum f (UNIV - {a})"
    by (rule sum.cong) simp_all
  ultimately show ?thesis by simp
qed

lemma ledger_credit:
  fixes f :: "address \<Rightarrow> nat"
  shows "sum (f(a := f a + r)) UNIV = sum f UNIV + r"
  using sum_ledger_upd[of f a "f a + r"] by simp

lemma ledger_zero:
  fixes f :: "address \<Rightarrow> nat"
  shows "sum (f(a := 0)) UNIV + f a = sum f UNIV"
  using sum_ledger_upd[of f a 0] by simp

lemma ledger_move:
  fixes f :: "address \<Rightarrow> nat"
  assumes "amount \<le> f a" "b \<noteq> a"
  shows "sum (f(a := f a - amount, b := f b + amount)) UNIV = sum f UNIV"
proof -
  let ?g = "f(a := f a - amount)"
  have "sum (?g(b := ?g b + amount)) UNIV = sum ?g UNIV + amount"
    by (rule ledger_credit)
  moreover have "sum ?g UNIV + f a = sum f UNIV + (f a - amount)"
    by (rule sum_ledger_upd)
  moreover have "?g b = f b" using assms by simp
  ultimately show ?thesis using assms by simp
qed

lemma dispatch_conservation:
  assumes "dispatch env s c = Inr (s', evs)"
  shows "ledgerTotal s' + totalClaimed evs = ledgerTotal s + totalComputed evs"
proof (cases c)
  case (MintBike bt nm)
  then obtain r where "mintBike env s bt nm = Inr (r, s', evs)"
    using assms by (cases "mintBike env s bt nm") auto
  from mintBike_frame(3,5)[OF this] show ?thesis
    by (simp add: ledgerTotal_def totalClaimed_def totalComputed_def)
next
  case (StartGame tok mode)
  then obtain r where "startGame env s tok mode = Inr (r, s', evs)"
    using assms by (cases "startGame env s tok mode") auto
  from startGame_frame(4,6)[OF this] show ?thesis
    by (simp add: ledgerTotal_def totalClaimed_def totalComputed_def)
next
  case (CompleteGame sid sc dist dodged)
  then have "completeGame env s sid sc dist dodged = Inr (s', evs)"
    using assms by simp
  from completeGame_frame(4)[OF this] obtain r devs where
    evs: "evs = devs @ [GameCompleted (msg_sender env) sid sc r (gameMode (gameSessions s sid))]"
    and pr: "playerRewards s' = (playerRewards s)(msg_sender env := playerRewards s (msg_sender env) + r)"
    and devs: "devs = [] \<or> (\<exists>x. devs = [DailyChallengeCompleted (msg_sender env) (getCurrentDay env) sc x])"
    by blast
  have "ledgerTotal s' = ledgerTotal s + r"
    unfolding ledgerTotal_def pr by (rule ledger_credit)
  moreover have "totalClaimed evs = 0" "totalComputed evs = r"
    using evs devs by (auto simp: totalClaimed_def totalComputed_def)
  ultimately show ?thesis by simp
next
  case ClaimRewards
  then have "claimRewards env s = Inr (s', evs)"
    using assms by simp
  from claimRewards_frame(4,5)[OF this] have
    pr: "playerRewards s' = (playerRewards s)(msg_sender env := 0)"
    and evs: "evs = [RewardsClaimed (msg_sender env) (playerRewards s (msg_sender env))]"
    by simp_all
  have "ledgerTotal s' + playerRewards s (msg_sender env) = ledgerTotal s"
    unfolding ledgerTotal_def pr by (rule ledger_zero)
  moreover have "totalClaimed evs = playerRewards s (msg_sender env)" "totalComputed evs = 0"
    using evs by (simp_all add: totalClaimed_def totalComputed_def)
  ultimately show ?thesis by simp
next
  case (TransferTokensToPlayer to amount)
  then have "transferTokensToPlayer env s to amount = Inr (s', evs)"
    using assms by simp
  from transferTokensToPlayer_frame(4,5,7,8)[OF this] have
    le: "amount \<le> playerRewards s (msg_sender env)" and ne: "to \<noteq> msg_sender env"
    and pr: "playerRewards s' = (playerRewards s)
       (msg_sender env := playerRewards s (msg_sender env) - amount,
        to := playerRewards s to + amount)"
    and evs: "evs = [TokensTransferred (msg_sender env) to amount]"
    by simp_all
  have "ledgerTotal s' = ledgerTotal s"
    unfolding ledgerTotal_def pr using le ne by (rule ledger_move)
  moreover have "totalClaimed evs = 0" "totalComputed evs = 0"
    using evs by (simp_all add: totalClaimed_def totalComputed_def)
  ultimately show ?thesis by simp
next
  case UpdateDailyChallenge
  then have "updateDailyChallenge env s = Inr (s', evs)"
    using assms by simp
  from updateDailyChallenge_frame(4,5)[OF this] show ?thesis
    by (auto simp: ledgerTotal_def totalClaimed_def totalComputed_def)
next
  case Pause
  then have "pause env s = Inr (s', evs) \<or> unpause env s = Inr (s', evs)"
    using assms by simp
  from pause_frame(4,5)[OF this] show ?thesis
    by (simp add: ledgerTotal_def totalClaimed_def totalComputed_def)
next
  case Unpause
  then have "pause env s = Inr (s', evs) \<or> unpause env s = Inr (s', evs)"
    using assms by simp
  from pause_frame(4,5)[OF this] show ?thesis
    by (simp add: ledgerTotal_def totalClaimed_def totalComputed_def)
qed

lemma exec_conservation:
  "ledgerTotal (fst (exec s tx)) + totalClaimed (snd (exec s tx))
     = ledgerTotal s + totalComputed (snd (exec s tx))"
proof (cases "dispatch (fst tx) s (snd tx)")
  case (Inl e)
  then show ?thesis by (simp add: exec_def totalClaimed_def totalComputed_def)
next
  case (Inr r)
  then obtain s' evs where "dispatch (fst tx) s (snd tx) = Inr (s', evs)"
    by (cases r) auto
  then show ?thesis
    using dispatch_conservation[of "fst tx" s "snd tx" s' evs] by (simp add: exec_def)
qed

lemma run_conservation:
  "ledgerTotal (fst (run s txs)) + totalClaimed (snd (run s txs))
     = ledgerTotal s + totalComputed (snd (run s txs))"
proof (induction txs arbitrary: s)
  case Nil
  then show ?case by (simp add: totalClaimed_def totalComputed_def)
next
  case (Cons tx txs)
  obtain s1 evs1 where e: "exec s tx = (s1, evs1)" by (cases "exec s tx")
  obtain s2 evs2 where r: "run s1 txs = (s2, evs2)" by (cases "run s1 txs")
  have "ledgerTotal s1 + totalClaimed evs1 = ledgerTotal s + totalComputed evs1"
    using exec_conservation[of s tx] e by simp
  moreover have "ledgerTotal s2 + totalClaimed evs2 = ledgerTotal s1 + totalComputed evs2"
    using Cons.IH[of s1] r by simp
  ultimately show ?case
    using e r by (simp add: totalClaimed_def totalComputed_def)
qed

subsection \<open>Sessions and daily grants along a run\<close>

lemma dispatch_frame:
  assumes "dispatch env s c = Inr (s', evs)"
  shows "nextSessionId s \<le> nextSessionId s'"
    and "\<And>k. k < nextSessionId s \<Longrightarrow> completed (gameSessions s k) \<Longrightarrow> completed (gameSessions s' k)"
    and "\<And>p d. completedDailyChallenges s p d \<Longrightarrow> completedDailyChallenges s' p d"
    and "(\<exists>sid sc dist dodged. c = CompleteGame sid sc dist dodged) \<or> dailyGrants p d evs = 0"
proof -
  have "nextSessionId s \<le> nextSessionId s'
    \<and> (\<forall>k. k < nextSessionId s \<longrightarrow> completed (gameSessions s k) \<longrightarrow> completed (gameSessions s' k))
    \<and> (\<forall>p d. completedDailyChallenges s p d \<longrightarrow> completedDailyChallenges s' p d)
    \<and> ((\<exists>sid sc dist dodged. c = CompleteGame sid sc dist dodged) \<or> dailyGrants p d evs = 0)"
  proof (cases c)
    case (MintBike bt nm)
    then obtain r where "mintBike env s bt nm = Inr (r, s', evs)"
      using assms by (cases "mintBike env s bt nm") auto
    from mintBike_frame[OF this] show ?thesis
      by (simp add: dailyGrants_def)
  next
    case (StartGame tok mode)
    then obtain r where "startGame env s tok mode = Inr (r, s', evs)"
      using assms by (cases "startGame env s tok mode") auto
    from startGame_frame[OF this] show ?thesis
      by (simp add: dailyGrants_def)
  next
    case (CompleteGame sid sc dist dodged)
    then have "completeGame env s sid sc dist dodged = Inr (s', evs)"
      using assms by simp
    from completeGame_frame(1,2,5)[OF this] show ?thesis
      using CompleteGame by simp
  next
    case ClaimRewards
    then have "claimRewards env s = Inr (s', evs)"
      using assms by simp
    from claimRewards_frame[OF this] show ?thesis
      by (simp add: dailyGrants_def)
  next
    case (TransferTokensToPlayer to amount)
    then have "transferTokensToPlayer env s to amount = Inr (s', evs)"
      using assms by simp
    from transferTokensToPlayer_frame[OF this] show ?thesis
      by (simp add: dailyGrants_def)
  next
    case UpdateDailyChallenge
    then have "updateDailyChallenge env s = Inr (s', evs)"
      using assms by simp
    from updateDailyChallenge_frame[OF this] show ?thesis
      by (auto simp: dailyGrants_def)
  next
    case Pause
    then have "pause env s = Inr (s', evs) \<or> unpause env s = Inr (s', evs)"
      using assms by simp
    from pause_frame[OF this] show ?thesis
      by (simp add: dailyGrants_def)
  next
    case Unpause
    then have "pause env s = Inr (s', evs) \<or> unpause env s = Inr (s', evs)"
      using assms by simp
    from pause_frame[OF this] show ?thesis
      by (simp add: dailyGrants_def)
  qed
  then show "nextSessionId s \<le> nextSessionId s'"
    and "\<And>k. k < nextSessionId s \<Longrightarrow> completed (gameSessions s k) \<Longrightarrow> completed (gameSessions s' k)"
    and "\<And>p d. completedDailyChallenges s p d \<Longrightarrow> completedDailyChallenges s' p d"
    and "(\<exists>sid sc dist dodged. c = CompleteGame sid sc dist dodged) \<or> dailyGrants p d evs = 0"
    by simp_all
qed

lemma dispatch_daily:
  assumes "dispatch env s c = Inr (s', evs)"
  shows "dailyGrants p d evs \<le> (if completedDailyChallenges s p d then 0 else 1)"
    and "dailyGrants p d evs = 1 \<Longrightarrow> completedDailyChallenges s' p d"
proof -
  have "dailyGrants p d evs \<le> (if completedDailyChallenges s p d then 0 else 1)
      \<and> (dailyGrants p d evs = 1 \<longrightarrow> completedDailyChallenges s' p d)"
  proof (cases "\<exists>sid sc dist dodged. c = CompleteGame sid sc dist dodged")
    case True
    then obtain sid sc dist dodged where "completeGame env s sid sc dist dodged = Inr (s', evs)"
      using assms by auto
    from completeGame_daily[OF this, of p d] show ?thesis
      by (auto split: if_splits)
  next
    case False
    then have "dailyGrants p d evs = 0"
      using dispatch_frame(4)[OF assms, of p d] by simp
    then show ?thesis by simp
  qed
  then show "dailyGrants p d evs \<le> (if completedDailyChallenges s p d then 0 else 1)"
    and "dailyGrants p d evs = 1 \<Longrightarrow> completedDailyChallenges s' p d"
    by simp_all
qed

lemma exec_committed:
  "\<not> reverted (dispatch env s c) \<Longrightarrow> dispatch env s c = Inr (exec s (env, c))"
  by (cases "dispatch env s c") (auto simp: reverted_def exec_def)

lemma exec_reverted:
  "reverted (dispatch env s c) \<Longrightarrow> exec s (env, c) = (s, [])"
  by (cases "dispatch env s c") (auto simp: reverted_def exec_def)

lemma exec_cases:
  obtains (reverted) e where "dispatch (fst tx) s (snd tx) = Inl e" "exec s tx = (s, [])"
  | (committed) s' evs where "dispatch (fst tx) s (snd tx) = Inr (s', evs)" "exec s tx = (s', evs)"
proof (cases "dispatch (fst tx) s (snd tx)")
  case (Inl e)
  then show ?thesis using reverted by (simp add: exec_def)
next
  case (Inr r)
  then show ?thesis using committed by (cases r) (simp add: exec_def)
qed

lemma dailyGrants_append: "dailyGrants p d (xs @ ys) = dailyGrants p d xs + dailyGrants p d ys"
  by (simp add: dailyGrants_def)

lemma run_daily:
  "dailyGrants p d (snd (run s txs)) \<le> (if completedDailyChallenges s p d then 0 else 1)"
proof (induction txs arbitrary: s)
  case Nil
  then show ?case by (simp add: dailyGrants_def)
next
  case (Cons tx txs)
  show ?case
  proof (cases rule: exec_cases[of tx s])
    case (reverted e)
    then show ?thesis using Cons.IH[of s] by (simp add: split_beta)
  next
    case (committed s' evs)
    have a: "dailyGrants p d evs \<le> (if completedDailyChallenges s p d then 0 else 1)"
      and b: "dailyGrants p d evs = 1 \<Longrightarrow> completedDailyChallenges s' p d"
      and c: "completedDailyChallenges s p d \<Longrightarrow> completedDailyChallenges s' p d"
      using dispatch_daily[OF committed(1)] dispatch_frame(3)[OF committed(1)] by blast+
    have ih: "dailyGrants p d (snd (run s' txs)) \<le> (if completedDailyChallenges s' p d then 0 else 1)"
      by (rule Cons.IH)
    have eq: "dailyGrants p d (snd (run s (tx # txs)))
            = dailyGrants p d evs + dailyGrants p d (snd (run s' txs))"
      using committed(2) by (simp add: split_beta dailyGrants_append)
    show ?thesis
    proof (cases "dailyGrants p d evs = 0")
      case True
      then show ?thesis
        using eq ih c by (cases "completedDailyChallenges s p d") (simp_all split: if_splits)
    next
      case False
      then have one: "dailyGrants p d evs = 1" and fresh: "\<not> completedDailyChallenges s p d"
        using a by (simp_all split: if_splits)
      have "completedDailyChallenges s' p d"
        using one by (rule b)
      then have "dailyGrants p d (snd (run s' txs)) = 0"
        using ih by simp
      then show ?thesis
        using eq one fresh by simp
    qed
  qed
qed

lemma run_completed:
  "sid < nextSessionId s \<Longrightarrow> completed (gameSessions s sid) \<Longrightarrow>
   sid < nextSessionId (fst (run s txs)) \<and> completed (gameSessions (fst (run s txs)) sid)"
proof (induction txs arbitrary: s)
  case Nil
  then show ?case by simp
next
  case (Cons tx txs)
  show ?case
  proof (cases rule: exec_cases[of tx s])
    case (reverted e)
    then show ?thesis using Cons.IH[of s] Cons.prems by (simp add: split_beta)
  next
    case (committed s' evs)
    have "sid < nextSessionId s'" "completed (gameSessions s' sid)"
      using dispatch_frame(1,2)[OF committed(1)] Cons.prems by auto
    then show ?thesis using Cons.IH[of s'] committed(2) by (simp add: split_beta)
  qed
qed

subsection \<open>claimRewards\<close>

lemma practiceCompleted_ledger: "playerRewards practiceCompleted alice = 25125000000000000000"
  by (simp add: scenario_defs)

lemma practiceCompleted_funds: "raceBalances practiceCompleted gameAddress = 1000 * 10 ^ 18"
  "self practiceCompleted = gameAddress" "raceBalances practiceCompleted alice = 0"
  "playerRewards practiceCompleted bob = 0"
  by (simp_all add: scenario_defs)

text \<open>
  C2: a claim with a positive ledger entry pays out exactly that entry in RACE tokens
  and leaves the entry at zero; with a zero entry it reverts with "No rewards to claim";
  and when the token transfer fails (the contract holds too few tokens, or the receiver
  is the zero address) the call reverts. A reverted transaction leaves the whole state
  as it was, so the zeroed entry is restored.
\<close>

theorem claim_drains:
  "(playerRewards s (msg_sender env) = 0 \<longrightarrow>
      claimRewards env s = Inl (Revert ''No rewards to claim'')
      \<and> exec s (env, ClaimRewards) = (s, []))
   \<and> (0 < playerRewards s (msg_sender env) \<and> msg_sender env \<noteq> 0
        \<and> msg_sender env \<noteq> self s
        \<and> playerRewards s (msg_sender env) \<le> raceBalances s (self s) \<longrightarrow>
      claimRewards env s =
        Inr (s\<lparr>playerRewards := (playerRewards s)(msg_sender env := 0),
               raceBalances := (raceBalances s)
                 (self s := raceBalances s (self s) - playerRewards s (msg_sender env),
                  msg_sender env :=
                    raceBalances s (msg_sender env) + playerRewards s (msg_sender env))\<rparr>,
             [RewardsClaimed (msg_sender env) (playerRewards s (msg_sender env))]))
   \<and> (0 < playerRewards s (msg_sender env)
        \<and> (msg_sender env = 0 \<or> raceBalances s (self s) < playerRewards s (msg_sender env)) \<longrightarrow>
      reverted (claimRewards env s)
      \<and> exec s (env, ClaimRewards) = (s, []))"
  by (auto simp: claimRewards_def exec_def erc20_transfer_def Let_def reverted_def)

theorem claim_drains_witness:
  "playerRewards practiceCompleted (msg_sender (at_time bob 5000)) = 0
   \<and> exec practiceCompleted (at_time bob 5000, ClaimRewards) = (practiceCompleted, [])
   \<and> 0 < playerRewards practiceCompleted (msg_sender (at_time alice 5000))
   \<and> playerRewards (fst (exec practiceCompleted (at_time alice 5000, ClaimRewards))) alice = 0
   \<and> raceBalances (fst (exec practiceCompleted (at_time alice 5000, ClaimRewards))) alice
        = 25125000000000000000
   \<and> raceBalances unfunded (self unfunded) < playerRewards unfunded (msg_sender (at_time alice 5000))
   \<and> exec unfunded (at_time alice 5000, ClaimRewards) = (unfunded, [])"
proof -
  have a: "msg_sender (at_time bob 5000) = bob" "msg_sender (at_time alice 5000) = alice"
    by (simp_all add: at_time_def)
  have ne: "alice \<noteq> 0" "alice \<noteq> gameAddress"
    by (simp_all add: alice_def gameAddress_def)
  have u: "playerRewards unfunded alice = 25125000000000000000"
    "raceBalances unfunded (self unfunded) = 0"
    by (simp_all add: unfunded_def practiceCompleted_ledger)
  have 1: "exec practiceCompleted (at_time bob 5000, ClaimRewards) = (practiceCompleted, [])"
    using claim_drains[of practiceCompleted "at_time bob 5000"] practiceCompleted_funds a
    by simp
  have 2: "claimRewards (at_time alice 5000) practiceCompleted =
        Inr (practiceCompleted\<lparr>playerRewards := (playerRewards practiceCompleted)(alice := 0),
               raceBalances := (raceBalances practiceCompleted)
                 (gameAddress := 1000 * 10 ^ 18 - 25125000000000000000,
                  alice := 25125000000000000000)\<rparr>,
             [RewardsClaimed alice 25125000000000000000])"
    using claim_drains[of practiceCompleted "at_time alice 5000"] practiceCompleted_funds
      practiceCompleted_ledger a ne
    by simp
  have 3: "exec unfunded (at_time alice 5000, ClaimRewards) = (unfunded, [])"
    using claim_drains[of unfunded "at_time alice 5000"] u a by simp
  show ?thesis
    using 1 2 3 u a practiceCompleted_funds practiceCompleted_ledger
    by (simp add: exec_def)
qed

subsection \<open>completeGame on a completed or foreign session\<close>

text \<open>
  C3: \<open>completeGame\<close> on a session that is completed, or whose player is not the
  caller, reverts and the transaction changes nothing. After a successful completion
  every later completion of the same session reverts, whoever calls it, with whatever
  arguments, and after whatever transactions came in between.
\<close>

theorem completion_rejected:
  "(completed (gameSessions s sid) \<or> player (gameSessions s sid) \<noteq> msg_sender env \<longrightarrow>
      reverted (completeGame env s sid sc dist dodged)
      \<and> exec s (env, CompleteGame sid sc dist dodged) = (s, []))
   \<and> (\<not> reverted (completeGame env s sid sc dist dodged) \<longrightarrow>
      reverted (completeGame env' (fst (exec s (env, CompleteGame sid sc dist dodged)))
                  sid sc' dist' dodged'))
   \<and> (\<not> reverted (completeGame env s sid sc dist dodged) \<and> sid < nextSessionId s \<longrightarrow>
      reverted (completeGame env'
                  (fst (run (fst (exec s (env, CompleteGame sid sc dist dodged))) txs))
                  sid sc' dist' dodged')
      \<and> exec (fst (run (fst (exec s (env, CompleteGame sid sc dist dodged))) txs))
              (env', CompleteGame sid sc' dist' dodged')
          = (fst (run (fst (exec s (env, CompleteGame sid sc dist dodged))) txs), []))"
proof -
  have rej: "\<And>env s. completed (gameSessions s sid) \<or> player (gameSessions s sid) \<noteq> msg_sender env \<Longrightarrow>
      reverted (completeGame env s sid sc' dist' dodged')
      \<and> exec s (env, CompleteGame sid sc' dist' dodged') = (s, [])" for sc' dist' dodged'
    by (auto simp: completeGame_def exec_def Let_def reverted_def)
  have fin: "completed (gameSessions (fst (exec s (env, CompleteGame sid sc dist dodged))) sid)
      \<and> nextSessionId (fst (exec s (env, CompleteGame sid sc dist dodged))) = nextSessionId s"
    if "\<not> reverted (completeGame env s sid sc dist dodged)"
  proof -
    obtain s1 evs where e: "exec s (env, CompleteGame sid sc dist dodged) = (s1, evs)"
      by (cases "exec s (env, CompleteGame sid sc dist dodged)")
    then have "completeGame env s sid sc dist dodged = Inr (s1, evs)"
      using exec_committed[of env s "CompleteGame sid sc dist dodged"] that by simp
    from completeGame_frame(1,3)[OF this] show ?thesis using e by simp
  qed
  have later: "reverted (completeGame env'
                  (fst (run (fst (exec s (env, CompleteGame sid sc dist dodged))) txs))
                  sid sc' dist' dodged')
      \<and> exec (fst (run (fst (exec s (env, CompleteGame sid sc dist dodged))) txs))
              (env', CompleteGame sid sc' dist' dodged')
          = (fst (run (fst (exec s (env, CompleteGame sid sc dist dodged))) txs), [])"
    if "\<not> reverted (completeGame env s sid sc dist dodged)" "sid < nextSessionId s"
  proof -
    let ?s1 = "fst (exec s (env, CompleteGame sid sc dist dodged))"
    have "completed (gameSessions (fst (run ?s1 txs)) sid)"
      using run_completed[of sid ?s1 txs] fin[OF that(1)] that(2) by simp
    then show ?thesis using rej by blast
  qed
  show ?thesis
    using rej[of s env sc dist dodged] rej fin later by blast
qed

lemma practiceStarted_session:
  "player (gameSessions practiceStarted 1) = alice"
  "\<not> completed (gameSessions practiceStarted 1)"
  "nextSessionId practiceStarted = 2"
  by (simp_all add: scenario_defs)

lemma practice_completes:
  "\<not> reverted (completeGame (at_time alice 4000) practiceStarted 1 1000 2000 10)"
  by (simp add: scenario_defs)

theorem completion_rejected_witness:
  "player (gameSessions practiceStarted 1) \<noteq> msg_sender (at_time bob 4000)
   \<and> reverted (completeGame (at_time bob 4000) practiceStarted 1 1000 2000 10)
   \<and> exec practiceStarted (at_time bob 4000, CompleteGame 1 1000 2000 10) = (practiceStarted, [])
   \<and> \<not> reverted (completeGame (at_time alice 4000) practiceStarted 1 1000 2000 10)
   \<and> 1 < nextSessionId practiceStarted
   \<and> reverted (completeGame (at_time alice 6000) practiceCompleted 1 5000 9000 50)
   \<and> reverted (completeGame (at_time alice 6000) afterClaim 1 5000 9000 50)
   \<and> exec afterClaim (at_time alice 6000, CompleteGame 1 5000 9000 50) = (afterClaim, [])"
proof -
  have h1: "player (gameSessions practiceStarted 1) \<noteq> msg_sender (at_time bob 4000)"
    using practiceStarted_session(1) by (simp add: at_time_def alice_def bob_def)
  have h2: "1 < nextSessionId practiceStarted"
    using practiceStarted_session(3) by simp
  note h3 = practice_completes
  have a: "reverted (completeGame (at_time bob 4000) practiceStarted 1 1000 2000 10)
      \<and> exec practiceStarted (at_time bob 4000, CompleteGame 1 1000 2000 10) = (practiceStarted, [])"
    using completion_rejected[of practiceStarted 1 "at_time bob 4000" 1000 2000 10] h1 by blast
  have b: "reverted (completeGame (at_time alice 6000) practiceCompleted 1 5000 9000 50)"
    using completion_rejected[of practiceStarted 1 "at_time alice 4000" 1000 2000 10
        "at_time alice 6000" 5000 9000 50] h3
    by (simp add: practiceCompleted_def)
  have c: "reverted (completeGame (at_time alice 6000) afterClaim 1 5000 9000 50)
      \<and> exec afterClaim (at_time alice 6000, CompleteGame 1 5000 9000 50) = (afterClaim, [])"
    using completion_rejected[of practiceStarted 1 "at_time alice 4000" 1000 2000 10
        "at_time alice 6000" 5000 9000 50 "[(at_time alice 5000, ClaimRewards)]"] h2 h3
    by (simp add: practiceCompleted_def afterClaim_def)
  show ?thesis using h1 h2 h3 a b c by simp
qed

subsection \<open>Ledger conservation\<close>

lemma constructor_ledger:
  "constructor env this bal = Inr (s0, evs0) \<Longrightarrow> ledgerTotal s0 = 0"
  by (auto simp: constructor_def createDailyChallenge_def freshStorage_def ledgerTotal_def Let_def
      split: option.splits prod.splits)

text \<open>
  C4: along every sequence of transactions the sum of all ledger entries plus the
  amounts paid out by claims (the \<open>RewardsClaimed\<close> events) equals the ledger sum at the
  start plus the rewards computed by completions (the \<open>GameCompleted\<close> events); from
  deployment, where every entry is zero, it equals the rewards computed. Entries are
  unsigned, and \<open>transferTokensToPlayer\<close> succeeds only when the amount is at most the
  sender's entry, the receiver differs from the sender and is not the zero address; it
  then debits the sender and credits the receiver by the same amount, so the sum stays.
\<close>

theorem ledger_conservation:
  "ledgerTotal (fst (run s txs)) + totalClaimed (snd (run s txs))
     = ledgerTotal s + totalComputed (snd (run s txs))
   \<and> (constructor env0 this bal = Inr (s0, evs0) \<longrightarrow>
        ledgerTotal (fst (run s0 txs)) + totalClaimed (snd (run s0 txs))
          = totalComputed (snd (run s0 txs)))
   \<and> (\<not> reverted (transferTokensToPlayer env s to amount) \<longrightarrow>
        amount \<le> playerRewards s (msg_sender env) \<and> to \<noteq> msg_sender env \<and> to \<noteq> 0
        \<and> playerRewards (fst (exec s (env, TransferTokensToPlayer to amount)))
            = (playerRewards s)
                (msg_sender env := playerRewards s (msg_sender env) - amount,
                 to := playerRewards s to + amount)
        \<and> ledgerTotal (fst (exec s (env, TransferTokensToPlayer to amount))) = ledgerTotal s)"
proof -
  have a: "ledgerTotal (fst (run s txs)) + totalClaimed (snd (run s txs))
     = ledgerTotal s + totalComputed (snd (run s txs))"
    by (rule run_conservation)
  have b: "ledgerTotal (fst (run s0 txs)) + totalClaimed (snd (run s0 txs))
          = totalComputed (snd (run s0 txs))"
    if "constructor env0 this bal = Inr (s0, evs0)"
    using run_conservation[of s0 txs] constructor_ledger[OF that] by simp
  have c: "amount \<le> playerRewards s (msg_sender env) \<and> to \<noteq> msg_sender env \<and> to \<noteq> 0
        \<and> playerRewards (fst (exec s (env, TransferTokensToPlayer to amount)))
            = (playerRewards s)
                (msg_sender env := playerRewards s (msg_sender env) - amount,
                 to := playerRewards s to + amount)
        \<and> ledgerTotal (fst (exec s (env, TransferTokensToPlayer to amount))) = ledgerTotal s"
    if "\<not> reverted (transferTokensToPlayer env s to amount)"
  proof -
    obtain s' evs where e: "exec s (env, TransferTokensToPlayer to amount) = (s', evs)"
      by (cases "exec s (env, TransferTokensToPlayer to amount)")
    then have t: "transferTokensToPlayer env s to amount = Inr (s', evs)"
      using exec_committed[of env s "TransferTokensToPlayer to amount"] that by simp
    note f = transferTokensToPlayer_frame[OF t]
    have "ledgerTotal s' = ledgerTotal s"
      unfolding ledgerTotal_def f(7) using f(4,5) by (rule ledger_move)
    then show ?thesis using f(4,5,6,7) e by simp
  qed
  show ?thesis using a b c by blast
qed

lemma ledgerRun_events:
  "snd (run deployed ledgerRun) =
     [BikeNFTMinted alice 0 SPORTS ''Lightning Sports'',
      GameStarted alice 1 0 PRACTICE,
      GameCompleted alice 1 1000 25125000000000000000 PRACTICE,
      TokensTransferred alice bob 5000000000000000000,
      RewardsClaimed alice 20125000000000000000]"
  by (simp add: ledgerRun_def scenario_defs SPORTS_BIKE_PRICE_def)

lemma practiceCompleted_transfer:
  "\<not> reverted (transferTokensToPlayer (at_time alice 4100) practiceCompleted bob (5 * 10 ^ 18))"
  by (simp add: scenario_defs)

lemma deployed_constructor:
  "constructor (at_time deployer 1000) gameAddress ((\<lambda>_. 0)(gameAddress := 1000 * 10 ^ 18))
     = Inr (deployed, [DailyChallengeCreated 0 500 50000000000000000000])"
  by (simp add: scenario_defs)

theorem ledger_conservation_witness:
  "ledgerTotal (fst (run deployed ledgerRun)) + 20125000000000000000 = 25125000000000000000
   \<and> \<not> reverted (transferTokensToPlayer (at_time alice 4100) practiceCompleted bob (5 * 10 ^ 18))
   \<and> 5 * 10 ^ 18 \<le> playerRewards practiceCompleted alice
   \<and> ledgerTotal (fst (exec practiceCompleted
         (at_time alice 4100, TransferTokensToPlayer bob (5 * 10 ^ 18))))
       = ledgerTotal practiceCompleted"
proof -
  have m: "msg_sender (at_time alice 4100) = alice"
    by (simp add: at_time_def)
  have a: "ledgerTotal (fst (run deployed ledgerRun)) + totalClaimed (snd (run deployed ledgerRun))
          = totalComputed (snd (run deployed ledgerRun))"
    using ledger_conservation[where txs = ledgerRun and ?env0.0 = "at_time deployer 1000"
        and this = gameAddress and bal = "(\<lambda>_. 0)(gameAddress := 1000 * 10 ^ 18)"
        and ?s0.0 = deployed and ?evs0.0 = "[DailyChallengeCreated 0 500 50000000000000000000]"]
      deployed_constructor by blast
  have b: "5 * 10 ^ 18 \<le> playerRewards practiceCompleted alice
      \<and> ledgerTotal (fst (exec practiceCompleted
            (at_time alice 4100, TransferTokensToPlayer bob (5 * 10 ^ 18))))
          = ledgerTotal practiceCompleted"
    using ledger_conservation[where env = "at_time alice 4100" and s = practiceCompleted
        and to = bob and amount = "5 * 10 ^ 18"]
      practiceCompleted_transfer m by simp
  show ?thesis
    using a b practiceCompleted_transfer
    by (simp add: ledgerRun_events totalClaimed_def totalComputed_def)
qed

subsection \<open>The daily bonus\<close>

lemma completeGame_grant:
  assumes "\<not> reverted (completeGame env s sid sc dist dodged)"
  shows "dailyGrants p d (snd (exec s (env, CompleteGame sid sc dist dodged)))
           = (if gameMode (gameSessions s sid) = DAILY_CHALLENGE \<and> dailyQualifies env s sc
                 \<and> p = msg_sender env \<and> d = getCurrentDay env then 1 else 0)"
    and "completedDailyChallenges (fst (exec s (env, CompleteGame sid sc dist dodged))) p d
           = (completedDailyChallenges s p d
              \<or> gameMode (gameSessions s sid) = DAILY_CHALLENGE \<and> dailyQualifies env s sc
                 \<and> p = msg_sender env \<and> d = getCurrentDay env)"
  using assms
  by (auto simp: completeGame_def exec_def reverted_def modeRewards_def dailyQualifies_def
      dailyGrants_def Let_def split: option.splits if_splits)

lemma completeGame_daily_credit:
  assumes "gameMode (gameSessions s sid) = DAILY_CHALLENGE"
    and "\<not> reverted (completeGame env s sid sc dist dodged)"
    and "performanceRewards (bikeNFTs s (bikeTokenId (gameSessions s sid))) sc dist dodged = Some perf"
  shows "credited (completeGame env s sid sc dist dodged) s (msg_sender env)
           = Some (perf + (if dailyQualifies env s sc
                           then rewardAmount (dailyChallenges s (getCurrentDay env)) else 0))"
  using assms
  by (auto simp: completeGame_def reverted_def modeRewards_def dailyQualifies_def credited_def
      checked_add_def Let_def split: option.splits if_splits)

lemma startGame_daily_done:
  "completedDailyChallenges s (msg_sender env) (getCurrentDay env) \<Longrightarrow>
   reverted (startGame env s tok DAILY_CHALLENGE)"
  by (auto simp: startGame_def reverted_def Let_def split: sum.splits)

text \<open>
  C5: along every sequence of transactions the daily bonus is granted to a player at
  most once for a day, and never once the player is marked for that day. A completion
  grants it exactly when the session is a daily challenge, the score reaches the target
  of the current day and the caller is not yet marked for that day; the grant adds the
  day's reward to the rewards and sets the mark in the same call. \<open>startGame\<close> in
  daily-challenge mode reverts for a caller already marked for the current day.
\<close>

theorem daily_bonus_once:
  "dailyGrants p d (snd (run s txs)) \<le> 1
   \<and> (completedDailyChallenges s p d \<longrightarrow> dailyGrants p d (snd (run s txs)) = 0)
   \<and> (\<not> reverted (completeGame env s sid sc dist dodged) \<longrightarrow>
        dailyGrants p d (snd (exec s (env, CompleteGame sid sc dist dodged)))
          = (if gameMode (gameSessions s sid) = DAILY_CHALLENGE \<and> dailyQualifies env s sc
                \<and> p = msg_sender env \<and> d = getCurrentDay env then 1 else 0)
        \<and> completedDailyChallenges (fst (exec s (env, CompleteGame sid sc dist dodged))) p d
          = (completedDailyChallenges s p d
             \<or> gameMode (gameSessions s sid) = DAILY_CHALLENGE \<and> dailyQualifies env s sc
                \<and> p = msg_sender env \<and> d = getCurrentDay env))
   \<and> (\<not> reverted (completeGame env s sid sc dist dodged)
        \<and> gameMode (gameSessions s sid) = DAILY_CHALLENGE
        \<and> performanceRewards (bikeNFTs s (bikeTokenId (gameSessions s sid))) sc dist dodged
            = Some perf \<longrightarrow>
        credited (completeGame env s sid sc dist dodged) s (msg_sender env)
          = Some (perf + (if dailyQualifies env s sc
                          then rewardAmount (dailyChallenges s (getCurrentDay env)) else 0)))
   \<and> (completedDailyChallenges s (msg_sender env) (getCurrentDay env) \<longrightarrow>
        reverted (startGame env s tok DAILY_CHALLENGE))"
proof -
  have a: "dailyGrants p d (snd (run s txs)) \<le> (if completedDailyChallenges s p d then 0 else 1)"
    by (rule run_daily)
  have a1: "dailyGrants p d (snd (run s txs)) \<le> 1"
    using a by (simp split: if_splits)
  have a2: "completedDailyChallenges s p d \<longrightarrow> dailyGrants p d (snd (run s txs)) = 0"
    using a by (simp split: if_splits)
  show ?thesis
    using a1 a2 completeGame_grant[of env s sid sc dist dodged p d]
      completeGame_daily_credit[of s sid env sc dist dodged perf]
      startGame_daily_done[of s env tok]
    by blast
qed

lemma dailyRun_events:
  "snd (run twoDailyStarted dailyRun) =
     [DailyChallengeCompleted alice 0 1000 50000000000000000000,
      GameCompleted alice 1 1000 70250000000000000000 DAILY_CHALLENGE,
      GameCompleted alice 2 1200 22250000000000000000 DAILY_CHALLENGE]"
  by (simp add: dailyRun_def twoDailyStarted_def scenario_defs)

lemma twoDailyStarted_facts:
  "\<not> reverted (completeGame (at_time alice 4000) twoDailyStarted 1 1000 0 0)"
  "gameMode (gameSessions twoDailyStarted 1) = DAILY_CHALLENGE"
  "dailyQualifies (at_time alice 4000) twoDailyStarted 1000"
  "performanceRewards (bikeNFTs twoDailyStarted (bikeTokenId (gameSessions twoDailyStarted 1)))
     1000 0 0 = Some 20250000000000000000"
  "rewardAmount (dailyChallenges twoDailyStarted 0) = 50000000000000000000"
  by (simp_all add: twoDailyStarted_def dailyQualifies_def scenario_defs)

lemma firstDailyCompleted_facts:
  "\<not> reverted (completeGame (at_time alice 5000) firstDailyCompleted 2 1200 0 0)"
  "gameMode (gameSessions firstDailyCompleted 2) = DAILY_CHALLENGE"
  "targetScore (dailyChallenges firstDailyCompleted 0) = 500"
  "performanceRewards (bikeNFTs firstDailyCompleted (bikeTokenId (gameSessions firstDailyCompleted 2)))
     1200 0 0 = Some 22250000000000000000"
  by (simp_all add: firstDailyCompleted_def twoDailyStarted_def scenario_defs)

theorem daily_bonus_once_witness:
  "dailyGrants alice 0 (snd (run twoDailyStarted dailyRun)) = 1
   \<and> \<not> reverted (completeGame (at_time alice 4000) twoDailyStarted 1 1000 0 0)
   \<and> credited (completeGame (at_time alice 4000) twoDailyStarted 1 1000 0 0) twoDailyStarted alice
       = Some 70250000000000000000
   \<and> completedDailyChallenges firstDailyCompleted alice 0
   \<and> \<not> reverted (completeGame (at_time alice 5000) firstDailyCompleted 2 1200 0 0)
   \<and> credited (completeGame (at_time alice 5000) firstDailyCompleted 2 1200 0 0)
       firstDailyCompleted alice = Some 22250000000000000000
   \<and> dailyGrants alice 0 (snd (run firstDailyCompleted [(at_time alice 5000, CompleteGame 2 1200 0 0)])) = 0
   \<and> reverted (startGame (at_time alice 6000) firstDailyCompleted 0 DAILY_CHALLENGE)"
proof -
  have m: "msg_sender (at_time alice 4000) = alice" "getCurrentDay (at_time alice 4000) = 0"
    "msg_sender (at_time alice 5000) = alice" "getCurrentDay (at_time alice 5000) = 0"
    "msg_sender (at_time alice 6000) = alice" "getCurrentDay (at_time alice 6000) = 0"
    by (simp_all add: at_time_def getCurrentDay_def)
  note t1 = daily_bonus_once[where s = twoDailyStarted and env = "at_time alice 4000" and sid = 1
      and sc = 1000 and dist = 0 and dodged = 0 and p = alice and d = 0
      and perf = 20250000000000000000]
  have c1: "credited (completeGame (at_time alice 4000) twoDailyStarted 1 1000 0 0) twoDailyStarted alice
       = Some 70250000000000000000"
    using t1 twoDailyStarted_facts m by simp
  have d1: "completedDailyChallenges firstDailyCompleted alice 0"
    using t1 twoDailyStarted_facts m by (simp add: firstDailyCompleted_def)
  note t2 = daily_bonus_once[where s = firstDailyCompleted and env = "at_time alice 5000"
      and sid = 2 and sc = 1200 and dist = 0 and dodged = 0 and p = alice and d = 0
      and perf = 22250000000000000000
      and txs = "[(at_time alice 5000, CompleteGame 2 1200 0 0)]"]
  have q2: "\<not> dailyQualifies (at_time alice 5000) firstDailyCompleted 1200"
    using d1 m by (simp add: dailyQualifies_def)
  have c2: "credited (completeGame (at_time alice 5000) firstDailyCompleted 2 1200 0 0)
       firstDailyCompleted alice = Some 22250000000000000000"
    using t2 firstDailyCompleted_facts m q2 by simp
  have g2: "dailyGrants alice 0 (snd (run firstDailyCompleted [(at_time alice 5000, CompleteGame 2 1200 0 0)])) = 0"
    using t2 d1 by blast
  have r3: "reverted (startGame (at_time alice 6000) firstDailyCompleted 0 DAILY_CHALLENGE)"
    using daily_bonus_once[where s = firstDailyCompleted and env = "at_time alice 6000" and tok = 0]
      d1 m by simp
  have g: "dailyGrants alice 0 (snd (run twoDailyStarted dailyRun)) = 1"
    by (simp add: dailyRun_events dailyGrants_def)
  show ?thesis
    using g twoDailyStarted_facts(1) c1 d1 firstDailyCompleted_facts(1) c2 g2 r3 by simp
qed

subsection \<open>The day of the daily bonus\<close>

text \<open>
  C10: a daily-challenge session started on day \<open>d\<close> and completed on day \<open>d + 1\<close>
  is judged against day \<open>d + 1\<close>: the score is compared with that day's target, the
  bonus is that day's reward, the caller is marked for day \<open>d + 1\<close>, and the mark of
  day \<open>d\<close> is left as it was.
\<close>

theorem daily_bonus_completion_day:
  assumes "gameMode (gameSessions s sid) = DAILY_CHALLENGE"
    and "timestamp (gameSessions s sid) div 86400 = d"
    and "getCurrentDay env = d + 1"
    and "\<not> reverted (completeGame env s sid sc dist dodged)"
    and "performanceRewards (bikeNFTs s (bikeTokenId (gameSessions s sid))) sc dist dodged
           = Some perf"
  shows "credited (completeGame env s sid sc dist dodged) s (msg_sender env)
           = Some (perf + (if targetScore (dailyChallenges s (d + 1)) \<le> sc
                              \<and> \<not> completedDailyChallenges s (msg_sender env) (d + 1)
                           then rewardAmount (dailyChallenges s (d + 1)) else 0))
       \<and> dailyGrants (msg_sender env) (d + 1) (snd (exec s (env, CompleteGame sid sc dist dodged)))
           = (if targetScore (dailyChallenges s (d + 1)) \<le> sc
                 \<and> \<not> completedDailyChallenges s (msg_sender env) (d + 1) then 1 else 0)
       \<and> dailyGrants (msg_sender env) d (snd (exec s (env, CompleteGame sid sc dist dodged))) = 0
       \<and> completedDailyChallenges (fst (exec s (env, CompleteGame sid sc dist dodged)))
            (msg_sender env) (d + 1)
           = (completedDailyChallenges s (msg_sender env) (d + 1)
              \<or> targetScore (dailyChallenges s (d + 1)) \<le> sc)
       \<and> completedDailyChallenges (fst (exec s (env, CompleteGame sid sc dist dodged)))
            (msg_sender env) d
           = completedDailyChallenges s (msg_sender env) d"
proof -
  have q: "dailyQualifies env s sc
             = (targetScore (dailyChallenges s (d + 1)) \<le> sc
                \<and> \<not> completedDailyChallenges s (msg_sender env) (d + 1))"
    using assms(3) by (simp add: dailyQualifies_def)
  have ne: "d \<noteq> getCurrentDay env"
    using assms(3) by simp
  have c: "credited (completeGame env s sid sc dist dodged) s (msg_sender env)
           = Some (perf + (if dailyQualifies env s sc
                           then rewardAmount (dailyChallenges s (d + 1)) else 0))"
    using completeGame_daily_credit[OF assms(1,4,5)] assms(3) by simp
  show ?thesis
    using c completeGame_grant[OF assms(4), of "msg_sender env" "d + 1"]
      completeGame_grant[OF assms(4), of "msg_sender env" d] assms(1,3) ne q
    by auto
qed

lemma dailyStarted_facts:
  "gameMode (gameSessions dailyStarted 1) = DAILY_CHALLENGE"
  "timestamp (gameSessions dailyStarted 1) div 86400 = 0"
  "targetScore (dailyChallenges dailyStarted 0) = 500"
  "targetScore (dailyChallenges dailyStarted 1) = 677"
  "rewardAmount (dailyChallenges dailyStarted 1) = 50000000000000000000"
  "\<not> completedDailyChallenges dailyStarted alice 0"
  "\<not> completedDailyChallenges dailyStarted alice 1"
  "\<not> reverted (completeGame (at_time alice 90000) dailyStarted 1 600 0 0)"
  "\<not> reverted (completeGame (at_time alice 90000) dailyStarted 1 700 0 0)"
  "performanceRewards (bikeNFTs dailyStarted (bikeTokenId (gameSessions dailyStarted 1))) 600 0 0
     = Some 16250000000000000000"
  "performanceRewards (bikeNFTs dailyStarted (bikeTokenId (gameSessions dailyStarted 1))) 700 0 0
     = Some 17250000000000000000"
  by (simp_all add: dailyStarted_def scenario_defs)

theorem daily_bonus_completion_day_witness:
  "gameMode (gameSessions dailyStarted 1) = DAILY_CHALLENGE
   \<and> timestamp (gameSessions dailyStarted 1) div 86400 = 0
   \<and> getCurrentDay (at_time alice 90000) = 0 + 1
   \<and> targetScore (dailyChallenges dailyStarted 0) = 500
   \<and> targetScore (dailyChallenges dailyStarted 1) = 677
   \<and> \<not> reverted (completeGame (at_time alice 90000) dailyStarted 1 600 0 0)
   \<and> credited (completeGame (at_time alice 90000) dailyStarted 1 600 0 0) dailyStarted alice
       = Some 16250000000000000000
   \<and> \<not> reverted (completeGame (at_time alice 90000) dailyStarted 1 700 0 0)
   \<and> credited (completeGame (at_time alice 90000) dailyStarted 1 700 0 0) dailyStarted alice
       = Some 67250000000000000000
   \<and> completedDailyChallenges
        (fst (exec dailyStarted (at_time alice 90000, CompleteGame 1 700 0 0))) alice 1
   \<and> \<not> completedDailyChallenges
        (fst (exec dailyStarted (at_time alice 90000, CompleteGame 1 700 0 0))) alice 0"
proof -
  have m: "msg_sender (at_time alice 90000) = alice"
    by (simp add: at_time_def)
  have day: "getCurrentDay (at_time alice 90000) = 0 + 1"
    by (simp add: at_time_def getCurrentDay_def)
  note lo = daily_bonus_completion_day[OF dailyStarted_facts(1,2) day dailyStarted_facts(8,10)]
  note hi = daily_bonus_completion_day[OF dailyStarted_facts(1,2) day dailyStarted_facts(9,11)]
  show ?thesis
    using lo hi m day dailyStarted_facts by simp
qed

section \<open>Properties of the client\<close>

subsection \<open>The fallback scan of getPlayerBikes\<close>

lemma scanLoop_filter:
  "scanLoop v me ids tokenIds = tokenIds @ filter (\<lambda>t. read_ownerOf v t = Some me) ids"
  by (induction ids arbitrary: tokenIds) (auto split: option.splits)

lemma scanLoop_zero:
  "0 \<in> set (scanLoop v me [1..<Suc maxTokens] tokenIds) \<longleftrightarrow> 0 \<in> set tokenIds"
  by (auto simp: scanLoop_filter)

lemma enumerateLoop_first_fails:
  "read_tokenOfOwnerByIndex v me 0 = None \<Longrightarrow> 0 < n \<Longrightarrow>
   enumerateLoop v me [0..<n] [] = ([], False)"
  by (simp add: upt_conv_Cons)

lemma getPlayerBikes_no_index:
  assumes "read_tokenOfOwnerByIndex v me 0 = None"
  shows "0 \<notin> set (getPlayerBikes (Some me) v)"
proof (cases "read_balanceOf v me")
  case None
  then show ?thesis by (simp add: getPlayerBikes_def)
next
  case (Some n)
  show ?thesis
  proof (cases "n = 0")
    case True
    then show ?thesis using Some by (simp add: getPlayerBikes_def)
  next
    case False
    then have "enumerateLoop v me [0..<n] [] = ([], False)"
      using enumerateLoop_first_fails[OF assms] by simp
    then show ?thesis
      using Some False scanLoop_zero[of v me _ "[]"]
      by (auto simp: getPlayerBikes_def split: option.splits)
  qed
qed

lemma mintBike_owner:
  assumes "mintBike env s bt nm = Inr (r, s', evs)"
  shows "r = tokenIdCounter s" "nft_owners s' r = msg_sender env"
  using assms
  by (auto simp: mintBike_def safeMint_def Let_def split: if_splits option.splits sum.splits prod.splits)

lemma constructor_counter:
  "constructor env this bal = Inr (s0, evs0) \<Longrightarrow> tokenIdCounter s0 = 0"
  by (auto simp: constructor_def createDailyChallenge_def freshStorage_def Let_def
      split: option.splits prod.splits)

text \<open>
  C9: the fallback scan starts at token 1, so it never adds token 0 to its result; when
  the enumerable index does not answer, \<open>getPlayerBikes\<close> does not return token 0. The
  contract numbers tokens from 0: the first mint after deployment returns token 0 and
  makes the caller its owner, and the fallback enumeration of that owner misses it.
\<close>

theorem fallback_scan_misses_token_zero:
  "(0 \<in> set (scanLoop v me [1..<Suc maxTokens] tokenIds) \<longleftrightarrow> 0 \<in> set tokenIds)
   \<and> (read_tokenOfOwnerByIndex v me 0 = None \<longrightarrow> 0 \<notin> set (getPlayerBikes (Some me) v))
   \<and> (constructor env0 this bal = Inr (s0, evs0) \<and> mintBike env s0 bt nm = Inr (r, s1, evs) \<longrightarrow>
        r = 0 \<and> nft_owners s1 0 = msg_sender env
        \<and> read_ownerOf (chainOf s1) 0 = Some (msg_sender env)
        \<and> 0 \<notin> set (getPlayerBikes (Some (msg_sender env)) (withoutEnumeration (chainOf s1))))"
proof -
  have c: "r = 0 \<and> nft_owners s1 0 = msg_sender env
        \<and> read_ownerOf (chainOf s1) 0 = Some (msg_sender env)
        \<and> 0 \<notin> set (getPlayerBikes (Some (msg_sender env)) (withoutEnumeration (chainOf s1)))"
    if "constructor env0 this bal = Inr (s0, evs0)" "mintBike env s0 bt nm = Inr (r, s1, evs)"
  proof -
    have r: "r = 0" "nft_owners s1 0 = msg_sender env"
      using mintBike_owner[OF that(2)] constructor_counter[OF that(1)] by simp_all
    have "msg_sender env \<noteq> 0"
      using that(2)
      by (auto simp: mintBike_def safeMint_def Let_def
          split: if_splits option.splits sum.splits prod.splits)
    then have o: "read_ownerOf (chainOf s1) 0 = Some (msg_sender env)"
      using r by (simp add: chainOf_def ownerOf_def)
    have "read_tokenOfOwnerByIndex (withoutEnumeration (chainOf s1)) (msg_sender env) 0 = None"
      by (simp add: withoutEnumeration_def)
    from getPlayerBikes_no_index[OF this] show ?thesis using r o by simp
  qed
  show ?thesis
    using scanLoop_zero[of v me maxTokens tokenIds] getPlayerBikes_no_index[of v me] c by blast
qed

lemma firstMinted_mint:
  "mintBike (at_time alice 2000) deployed SPORTS ''Lightning Sports''
     = Inr (0, firstMinted, [BikeNFTMinted alice 0 SPORTS ''Lightning Sports''])"
  by (simp add: firstMinted_def scenario_defs SPORTS_BIKE_PRICE_def)

lemma firstMinted_views:
  "getPlayerBikes (Some alice) (chainOf firstMinted) = [0]"
  "getPlayerBikes (Some alice) (withoutEnumeration (chainOf firstMinted)) = []"
  by (simp_all add: firstMinted_def getPlayerBikes_def chainOf_def withoutEnumeration_def
      scenario_defs SPORTS_BIKE_PRICE_def)

theorem fallback_scan_misses_token_zero_witness:
  "constructor (at_time deployer 1000) gameAddress ((\<lambda>_. 0)(gameAddress := 1000 * 10 ^ 18))
     = Inr (deployed, [DailyChallengeCreated 0 500 50000000000000000000])
   \<and> mintBike (at_time alice 2000) deployed SPORTS ''Lightning Sports''
     = Inr (0, firstMinted, [BikeNFTMinted alice 0 SPORTS ''Lightning Sports''])
   \<and> read_ownerOf (chainOf firstMinted) 0 = Some alice
   \<and> getPlayerBikes (Some alice) (chainOf firstMinted) = [0]
   \<and> getPlayerBikes (Some alice) (withoutEnumeration (chainOf firstMinted)) = []
   \<and> 0 \<notin> set (getPlayerBikes (Some alice) (withoutEnumeration (chainOf firstMinted)))"
proof -
  have m: "msg_sender (at_time alice 2000) = alice"
    by (simp add: at_time_def)
  note t = fallback_scan_misses_token_zero[where ?env0.0 = "at_time deployer 1000"
      and this = gameAddress and bal = "(\<lambda>_. 0)(gameAddress := 1000 * 10 ^ 18)"
      and ?s0.0 = deployed and ?evs0.0 = "[DailyChallengeCreated 0 500 50000000000000000000]"
      and env = "at_time alice 2000" and bt = SPORTS and nm = "''Lightning Sports''"
      and r = 0 and ?s1.0 = firstMinted
      and evs = "[BikeNFTMinted alice 0 SPORTS ''Lightning Sports'']"]
  have "read_ownerOf (chainOf firstMinted) 0 = Some alice
      \<and> 0 \<notin> set (getPlayerBikes (Some alice) (withoutEnumeration (chainOf firstMinted)))"
    using t deployed_constructor firstMinted_mint m by simp
  then show ?thesis
    using deployed_constructor firstMinted_mint firstMinted_views by simp
qed

subsection \<open>The retries of getOwnedBikeTypesReliable\<close>









subsection \<open>A mint whose receipt times out\<close>

lemma receiptTimeoutText_no_timeout: "\<not> str_includes receiptTimeoutText ''timeout''"
  by (simp add: receiptTimeoutText_def)


text \<open>
  C7: when the wait for the receipt of a mint times out, the service returns a failure
  whose text says "timed out"; the game context looks for "timeout" in that text, does
  not find it, and starts no timer: it sets the error and nothing else. The batch was
  handed to the relay once, and no run of the flow hands over more than one batch.
\<close>

theorem mint_timeout_starts_no_timer:
  "\<not> str_includes receiptTimeoutText ''timeout''
   \<and> service_mintBike (timedOutMint bt surplus hash fmt) bt bikeName =
       (\<lparr>success = False, transactionHash = Some hash, error = Some receiptTimeoutText,
         sessionId = None, tokenId = None\<rparr>,
        [[Approve gameContract (clientBikeMintPrice bt), GameCall (MintBike bt bikeName)]])
   \<and> context_mintBike True (timedOutMint bt surplus hash fmt) bt bikeName =
       ([SetLoading True, SetError None, SetError (Some receiptTimeoutText), SetLoading False],
        [[Approve gameContract (clientBikeMintPrice bt), GameCall (MintBike bt bikeName)]])
   \<and> length (snd (context_mintBike connected env bt bikeName)) \<le> 1"
proof -
  have a: "\<not> str_includes receiptTimeoutText ''timeout''"
    by (rule receiptTimeoutText_no_timeout)
  have ne: "receiptTimeoutText \<noteq> []"
    by (simp add: receiptTimeoutText_def)
  have b: "service_mintBike (timedOutMint bt surplus hash fmt) bt bikeName =
       (\<lparr>success = False, transactionHash = Some hash, error = Some receiptTimeoutText,
         sessionId = None, tokenId = None\<rparr>,
        [[Approve gameContract (clientBikeMintPrice bt), GameCall (MintBike bt bikeName)]])"
    by (simp add: service_mintBike_def timedOutMint_def Let_def)
  have c: "context_mintBike True (timedOutMint bt surplus hash fmt) bt bikeName =
       ([SetLoading True, SetError None, SetError (Some receiptTimeoutText), SetLoading False],
        [[Approve gameContract (clientBikeMintPrice bt), GameCall (MintBike bt bikeName)]])"
    using a ne by (simp add: context_mintBike_def b)
  have d: "length (snd (service_mintBike env bt bikeName)) \<le> 1"
    by (simp add: service_mintBike_def Let_def split: sum.splits)
  have e: "length (snd (context_mintBike connected env bt bikeName)) \<le> 1"
    using d by (auto simp: context_mintBike_def split: prod.splits)
  show ?thesis using a b c e by simp
qed

subsection \<open>The batches of the completion flow\<close>









end
